theory Spec2Isabelle
  imports Main
begin

section \<open>JavaScript values\<close>

text \<open>
  The entry point \<open>request\<close> of \<open>src/index.ts\<close> receives loosely typed arguments and
  inspects them with \<open>typeof\<close>, truthiness tests and \<open>Buffer.isBuffer\<close>, so the
  values it handles are modelled by one datatype of JavaScript values.

  A string is represented by the bytes of its UTF-8 encoding (well-formed strings only),
  so that \<open>Buffer.from(s)\<close> keeps the bytes and \<open>buffer.length\<close> is the length of the
  list. Numbers are the integers and \<open>NaN\<close>. Error objects carry their class and
  message. A function value is opaque. An object is the list of its own enumerable
  properties in insertion order, with distinct keys.
\<close>

datatype err_kind = Error | TypeError

datatype jsval =
    JUndefined
  | JNull
  | JBool bool
  | JNum int
  | JNaN
  | JStr string
  | JBuffer string
  | JErr err_kind string
  | JFun nat
  | JArr "jsval list"
  | JObj "(string \<times> jsval) list"

text \<open>The operator \<open>typeof\<close>.\<close>

fun typeof :: "jsval \<Rightarrow> string" where
  "typeof JUndefined = ''undefined''"
| "typeof JNull = ''object''"
| "typeof (JBool b) = ''boolean''"
| "typeof (JNum n) = ''number''"
| "typeof JNaN = ''number''"
| "typeof (JStr s) = ''string''"
| "typeof (JBuffer b) = ''object''"
| "typeof (JErr k m) = ''object''"
| "typeof (JFun f) = ''function''"
| "typeof (JArr xs) = ''object''"
| "typeof (JObj ps) = ''object''"

text \<open>
  Truthiness, as tested by \<open>if (v)\<close>, \<open>!v\<close> and \<open>v || w\<close>: the falsy values are
  \<open>undefined\<close>, \<open>null\<close>, \<open>false\<close>, \<open>0\<close>, \<open>NaN\<close> and the empty string.
\<close>

fun truthy :: "jsval \<Rightarrow> bool" where
  "truthy JUndefined = False"
| "truthy JNull = False"
| "truthy (JBool b) = b"
| "truthy (JNum n) = (n \<noteq> 0)"
| "truthy JNaN = False"
| "truthy (JStr s) = (s \<noteq> [])"
| "truthy (JBuffer b) = True"
| "truthy (JErr k m) = True"
| "truthy (JFun f) = True"
| "truthy (JArr xs) = True"
| "truthy (JObj ps) = True"

text \<open>\<open>Buffer.isBuffer\<close>.\<close>

fun isBuffer :: "jsval \<Rightarrow> bool" where
  "isBuffer (JBuffer b) = True"
| "isBuffer v = False"

text \<open>
  Reading a property of a value that is neither \<open>null\<close> nor \<open>undefined\<close>. Only plain
  objects carry properties of their own in this model; every other value answers
  \<open>undefined\<close>.
\<close>

fun get_prop :: "jsval \<Rightarrow> string \<Rightarrow> jsval" where
  "get_prop (JObj ps) name = (case map_of ps name of None \<Rightarrow> JUndefined | Some v \<Rightarrow> v)"
| "get_prop v name = JUndefined"

text \<open>
  Assigning a property \<open>o[name] = v\<close>: an existing key keeps its place, a new key goes
  last.
\<close>

fun prop_set :: "(string \<times> 'v) list \<Rightarrow> string \<Rightarrow> 'v \<Rightarrow> (string \<times> 'v) list" where
  "prop_set [] name v = [(name, v)]"
| "prop_set ((k, w) # ps) name v =
     (if k = name then (k, v) # ps else (k, w) # prop_set ps name v)"

subsection \<open>Strings\<close>

text \<open>
  \<open>toUpperCase\<close> and \<open>toLowerCase\<close> on the ASCII letters; bytes outside the ASCII letters
  are kept. HTTP methods and header names are ASCII tokens.
\<close>

definition lower_letters :: string where
  "lower_letters = ''abcdefghijklmnopqrstuvwxyz''"

definition upper_letters :: string where
  "upper_letters = ''ABCDEFGHIJKLMNOPQRSTUVWXYZ''"

definition upper_char :: "char \<Rightarrow> char" where
  "upper_char c = (case map_of (zip lower_letters upper_letters) c of None \<Rightarrow> c | Some u \<Rightarrow> u)"

definition lower_char :: "char \<Rightarrow> char" where
  "lower_char c = (case map_of (zip upper_letters lower_letters) c of None \<Rightarrow> c | Some l \<Rightarrow> l)"

definition toUpperCase :: "string \<Rightarrow> string" where
  "toUpperCase s = map upper_char s"

definition toLowerCase :: "string \<Rightarrow> string" where
  "toLowerCase s = map lower_char s"

text \<open>
  The decimal numeral of a natural number, as \<open>'' + n\<close> prints it; \<open>digit_char\<close> is
  the digit of a number below 16 (decimal below 10, lower-case hexadecimal otherwise).
\<close>

definition digit_char :: "nat \<Rightarrow> char" where
  "digit_char d = ''0123456789abcdef'' ! d"

fun string_of_nat :: "nat \<Rightarrow> string" where
  "string_of_nat n =
     (if n < 10 then [digit_char n] else string_of_nat (n div 10) @ [digit_char (n mod 10)])"

declare string_of_nat.simps [simp del]

definition string_of_int :: "int \<Rightarrow> string" where
  "string_of_int i = (if i < 0 then ''-'' @ string_of_nat (nat (- i)) else string_of_nat (nat i))"

text \<open>\<open>Buffer.from(s)\<close>: the UTF-8 bytes of the string, which is how strings are kept.\<close>

definition Buffer_from :: "string \<Rightarrow> string" where
  "Buffer_from s = s"

subsection \<open>JSON.stringify\<close>

text \<open>
  The serialisation of the values of the model: \<open>undefined\<close> and functions have none
  (they are skipped in an object and print as \<open>null\<close> in an array), \<open>NaN\<close> prints as
  \<open>null\<close>, a Buffer prints through its \<open>toJSON\<close>, an error object has no enumerable
  property.
\<close>

definition escape_char :: "char \<Rightarrow> string" where
  "escape_char c =
     (let n = (of_char c :: nat) in
      if n = 34 then [CHR 0x5C, CHR 0x22]
      else if n = 92 then [CHR 0x5C, CHR 0x5C]
      else if n = 8 then [CHR 0x5C, CHR ''b'']
      else if n = 12 then [CHR 0x5C, CHR ''f'']
      else if n = 10 then [CHR 0x5C, CHR ''n'']
      else if n = 13 then [CHR 0x5C, CHR ''r'']
      else if n = 9 then [CHR 0x5C, CHR ''t'']
      else if n < 32 then [CHR 0x5C, CHR ''u'', CHR ''0'', CHR ''0'', digit_char (n div 16), digit_char (n mod 16)]
      else [c])"

definition quote :: "string \<Rightarrow> string" where
  "quote s = [CHR 0x22] @ concat (map escape_char s) @ [CHR 0x22]"

fun join :: "string \<Rightarrow> string list \<Rightarrow> string" where
  "join sep [] = []"
| "join sep [x] = x"
| "join sep (x # y # ys) = x @ sep @ join sep (y # ys)"

fun stringify :: "jsval \<Rightarrow> string option" where
  "stringify JUndefined = None"
| "stringify (JFun f) = None"
| "stringify JNull = Some ''null''"
| "stringify (JBool b) = Some (if b then ''true'' else ''false'')"
| "stringify (JNum n) = Some (string_of_int n)"
| "stringify JNaN = Some ''null''"
| "stringify (JStr s) = Some (quote s)"
| "stringify (JBuffer b) =
     Some (''{'' @ quote ''type'' @ '':'' @ quote ''Buffer'' @ '','' @ quote ''data'' @ '':['' @
           join '','' (map (\<lambda>c. string_of_nat (of_char c)) b) @ '']}'')"
| "stringify (JErr k m) = Some ''{}''"
| "stringify (JArr xs) =
     Some (''['' @ join '','' (map (\<lambda>x. case stringify x of None \<Rightarrow> ''null'' | Some s \<Rightarrow> s) xs) @ '']'')"
| "stringify (JObj ps) =
     Some (''{'' @
           join '','' (concat (map (\<lambda>p. case stringify (snd p) of None \<Rightarrow> []
                                           | Some s \<Rightarrow> [quote (fst p) @ '':'' @ s]) ps)) @
           ''}'')"

definition JSON_stringify :: "jsval \<Rightarrow> jsval" where
  "JSON_stringify v = (case stringify v of None \<Rightarrow> JUndefined | Some s \<Rightarrow> JStr s)"

section \<open>Header maps and the case-insensitive wrapper\<close>

text \<open>
  A header value is a string or an array of strings (\<open>IncomingHttpHeaders\<close>). A header
  map is a JavaScript object: its keys in insertion order, each key once.
\<close>

datatype hval = HStr string | HArr "string list"

type_synonym headers = "(string \<times> hval) list"

text \<open>
  Modelled from the spec: the case-insensitive wrapper is the external package
  \<open>caseless\<close>, which is not among the sources. The spec describes it as \<open>get/set/has\<close> over
  the header mapping with case-insensitive keys: \<open>caseless(dict)\<close> works on the object
  \<open>dict\<close> itself, and \<open>has(name)\<close> tells whether a key of the object equals \<open>name\<close> when
  both are lower-cased; here it answers the first such key. Header names are HTTP
  tokens, hence not empty.
\<close>

fun caseless_has :: "headers \<Rightarrow> string \<Rightarrow> string option" where
  "caseless_has [] name = None"
| "caseless_has ((k, v) # d) name =
     (if toLowerCase k = toLowerCase name then Some k else caseless_has d name)"

text \<open>
  Modelled from the spec: \<open>set(name, value)\<close> of the same package stores the value under
  the key that \<open>has(name)\<close> found, or under \<open>name\<close> when there is none.
\<close>

definition caseless_set :: "headers \<Rightarrow> string \<Rightarrow> hval \<Rightarrow> headers" where
  "caseless_set d name v =
     prop_set d (case caseless_has d name of None \<Rightarrow> name | Some k \<Rightarrow> k) v"

text \<open>
  The loop of \<open>request\<close> over the resolved body headers (lines 134 to 138):
  \<^verbatim>\<open>Object.keys(bodyHeaders).forEach(key => {
    if (!headers.has(key)) { headers.set(key, bodyHeaders[key]); } })\<close>
  The first argument is the object behind the wrapper, which is \<open>options.headers\<close>.
\<close>

fun merge_headers :: "headers \<Rightarrow> headers \<Rightarrow> headers" where
  "merge_headers d [] = d"
| "merge_headers d ((key, v) # bodyHeaders) =
     merge_headers (if caseless_has d key = None then caseless_set d key v else d) bodyHeaders"

section \<open>Futures\<close>

text \<open>
  A promise is pending, fulfilled with a value or rejected with a reason; \<open>settle\<close> is
  what \<open>resolve\<close> and \<open>reject\<close> do: only a pending promise changes.
\<close>

datatype 'a settled = Pending | Fulfilled 'a | Rejected jsval

fun settle :: "'a settled \<Rightarrow> 'a settled \<Rightarrow> 'a settled" where
  "settle Pending r = r"
| "settle p r = p"

section \<open>Body variants\<close>

text \<open>
  The form component (\<open>form-data\<close>) is external. A form is described by what the code
  asks of it: the headers that \<open>form.getHeaders()\<close> returns, and the invocations that
  \<open>form.getLength\<close> makes of its callback, in order, each with its \<open>err\<close> and \<open>length\<close>
  arguments.
\<close>

record form_data =
  form_headers :: headers
  length_calls :: "(jsval \<times> nat) list"

datatype normalized_body =
    BufferBody string headers
  | FormBody form_data
  | StreamBody jsval

text \<open>The object spread \<open>{...base, ...extra}\<close>: the properties of \<open>extra\<close> assigned in order.\<close>

fun spread :: "headers \<Rightarrow> headers \<Rightarrow> headers" where
  "spread base [] = base"
| "spread base ((k, v) # extra) = spread (prop_set base k v) extra"

text \<open>\<open>BufferBody.getHeaders\<close> (line 33).\<close>

definition BufferBody_getHeaders :: "string \<Rightarrow> headers \<Rightarrow> headers settled" where
  "BufferBody_getHeaders b hs =
     Fulfilled (spread [(''content-length'', HStr (string_of_nat (length b)))] hs)"

text \<open>
  \<open>FormBody.getHeaders\<close> (lines 44 to 62). The state of one call: the flag \<open>gotLength\<close>,
  the promise being returned, and how many times \<open>resolve\<close> or \<open>reject\<close> has been called.
  \<open>length_callback\<close> is the callback handed to \<open>getLength\<close>.
\<close>

record length_state =
  gotLength :: bool
  result :: "headers settled"
  settle_calls :: nat

definition length_callback :: "headers \<Rightarrow> length_state \<Rightarrow> jsval \<times> nat \<Rightarrow> length_state" where
  "length_callback hs st call =
     (case call of (err, len) \<Rightarrow>
        if gotLength st then st
        else if truthy err then
          st\<lparr>gotLength := True,
             result := settle (result st)
               (Rejected (if typeof err = ''string''
                          then (case err of JStr m \<Rightarrow> JErr Error m | _ \<Rightarrow> err)
                          else err)),
             settle_calls := Suc (settle_calls st)\<rparr>
        else
          st\<lparr>gotLength := True,
             result := settle (result st)
               (Fulfilled (prop_set hs ''content-length'' (HStr (string_of_nat len)))),
             settle_calls := Suc (settle_calls st)\<rparr>)"

definition FormBody_run :: "form_data \<Rightarrow> length_state" where
  "FormBody_run f =
     foldl (length_callback (form_headers f))
       \<lparr>gotLength = False, result = Pending, settle_calls = 0\<rparr> (length_calls f)"

definition FormBody_getHeaders :: "form_data \<Rightarrow> headers settled" where
  "FormBody_getHeaders f = result (FormBody_run f)"

text \<open>\<open>StreamBody.getHeaders\<close> (line 73).\<close>

definition StreamBody_getHeaders :: "jsval \<Rightarrow> headers settled" where
  "StreamBody_getHeaders s = Fulfilled []"

fun getHeaders :: "normalized_body \<Rightarrow> headers settled" where
  "getHeaders (BufferBody b hs) = BufferBody_getHeaders b hs"
| "getHeaders (FormBody f) = FormBody_getHeaders f"
| "getHeaders (StreamBody s) = StreamBody_getHeaders s"

section \<open>Request options and body selection\<close>

text \<open>
  The fields of \<open>Options\<close> that \<open>request\<close> reads. \<open>body\<close> and \<open>json\<close> are inspected at run
  time and so are arbitrary values; \<open>form\<close> and \<open>headers\<close> are absent (\<open>None\<close>) or of
  their declared type; the remaining fields are only tested for truthiness, compared
  with \<open>false\<close> or passed on.
\<close>

record options =
  body :: jsval
  json :: jsval
  form :: "form_data option"
  headers :: "headers option"
  qs :: jsval
  allowRedirectHeaders :: jsval
  followRedirects :: jsval
  maxRedirects :: jsval
  gzip :: jsval
  cache :: jsval
  agent :: jsval
  timeout :: jsval
  socketTimeout :: jsval
  retry :: jsval
  retryDelay :: jsval
  maxRetries :: jsval
  isMatch :: jsval
  isExpired :: jsval
  canCache :: jsval

text \<open>The object \<open>{}\<close>: every field absent.\<close>

definition empty_options :: options where
  "empty_options =
     \<lparr>body = JUndefined, json = JUndefined, form = None, headers = None, qs = JUndefined,
      allowRedirectHeaders = JUndefined, followRedirects = JUndefined,
      maxRedirects = JUndefined, gzip = JUndefined, cache = JUndefined, agent = JUndefined,
      timeout = JUndefined, socketTimeout = JUndefined, retry = JUndefined,
      retryDelay = JUndefined, maxRetries = JUndefined, isMatch = JUndefined,
      isExpired = JUndefined, canCache = JUndefined\<rparr>"

text \<open>The value of \<open>options.headers || {}\<close> (line 122).\<close>

definition own_headers :: "options \<Rightarrow> headers" where
  "own_headers opts = (case headers opts of None \<Rightarrow> [] | Some h \<Rightarrow> h)"

text \<open>
  \<open>handleBody\<close> (lines 79 to 102). \<open>Inl\<close> is a thrown exception. The steps are the
  statements of the source in order: the form test, the \<open>json\<close> test with its extra
  header, the conversion of a string, the replacement of a falsy value by
  \<open>Buffer.alloc(0)\<close>, and the test \<open>Buffer.isBuffer\<close> with the \<open>pipe\<close> test behind it.
\<close>

definition handleBody :: "options \<Rightarrow> jsval + normalized_body" where
  "handleBody opts =
     (case form opts of
        Some f \<Rightarrow> Inr (FormBody f)
      | None \<Rightarrow>
         (let extraHeaders =
                (if truthy (json opts) then [(''content-type'', HStr ''application/json'')] else []);
              b0 = (if truthy (json opts) then JSON_stringify (json opts) else body opts);
              b1 = (if typeof b0 = ''string''
                    then (case b0 of JStr s \<Rightarrow> JBuffer (Buffer_from s) | _ \<Rightarrow> b0) else b0);
              b2 = (if \<not> truthy b1 then JBuffer [] else b1)
          in (case b2 of
                JBuffer bytes \<Rightarrow> Inr (BufferBody bytes extraHeaders)
              | _ \<Rightarrow>
                  if typeof (get_prop b2 ''pipe'') = ''function'' then Inr (StreamBody b2)
                  else Inl (JErr TypeError ''body should be a Buffer or a String''))))"

section \<open>The transport and the other collaborators\<close>

text \<open>
  The configuration bag that \<open>ready\<close> hands to the transport (lines 149 to 165), field
  by field; \<open>followRedirects\<close> and \<open>gzip\<close> are the comparisons \<open>!== false\<close>.
\<close>

record transport_config =
  cfg_allowRedirectHeaders :: jsval
  cfg_headers :: "headers option"
  cfg_followRedirects :: bool
  cfg_maxRedirects :: jsval
  cfg_gzip :: bool
  cfg_cache :: jsval
  cfg_agent :: jsval
  cfg_timeout :: jsval
  cfg_socketTimeout :: jsval
  cfg_retry :: jsval
  cfg_retryDelay :: jsval
  cfg_maxRetries :: jsval
  cfg_isMatch :: jsval
  cfg_isExpired :: jsval
  cfg_canCache :: jsval

text \<open>
  What the transport \<open>basicRequest\<close> (package \<open>http-basic\<close>) does when invoked: it throws,
  or it returns a request sink (\<open>True\<close>) or nothing (\<open>False\<close>) and later calls its
  callback, or never does. The callback receives \<open>err\<close> and possibly a response whose
  body is a stream: the stream emits an error, or ends after \<open>concat-stream\<close> has
  collected a Buffer or the empty array, or stays open.
\<close>

datatype concat_result = Collected string | EmptyArray

datatype stream_result = StreamError jsval | StreamEnd concat_result | StreamOpen

record incoming_response =
  in_statusCode :: int
  in_headers :: headers
  in_body :: stream_result
  in_url :: string

datatype completion = NoCompletion | Completed jsval "incoming_response option"

datatype transport_result = Throws jsval | Returns bool completion

text \<open>
  The collaborators of \<open>request\<close> that are not in \<open>src/index.ts\<close>: the query-string
  handler \<open>handleQs\<close> (\<open>./handle-qs\<close>) and the transport.
\<close>

record env =
  handleQs :: "string \<Rightarrow> jsval \<Rightarrow> string"
  basicRequest :: "string \<Rightarrow> string \<Rightarrow> transport_config \<Rightarrow> transport_result"

text \<open>The buffered response (\<open>GenericResponse\<close>).\<close>

record response =
  statusCode :: int
  res_headers :: headers
  res_body :: string
  res_url :: string

section \<open>The dispatch\<close>

text \<open>
  What can be observed of one call of \<open>request\<close>: the events in the order in which they
  happen, the state of the object that \<open>options\<close> refers to when the call is over, an
  exception leaving the function (if any), and the promise.
\<close>

datatype event =
    HeadersResolved headers
  | HeadersFailed jsval
  | TransportInvoked string string transport_config
  | BodyPiped normalized_body

record run =
  trace :: "event list"
  options_after :: options
  thrown :: "jsval option"
  promise :: "response settled"

text \<open>The callback given to the transport (lines 166 to 180).\<close>

definition on_completion :: "completion \<Rightarrow> response settled" where
  "on_completion c =
     (case c of
        NoCompletion \<Rightarrow> Pending
      | Completed err res \<Rightarrow>
          if truthy err then Rejected err
          else (case res of
                  None \<Rightarrow> Rejected (JErr Error ''No request was received'')
                | Some r \<Rightarrow>
                   (case in_body r of
                      StreamError e \<Rightarrow> Rejected e
                    | StreamOpen \<Rightarrow> Pending
                    | StreamEnd acc \<Rightarrow>
                        Fulfilled \<lparr>statusCode = in_statusCode r, res_headers = in_headers r,
                                   res_body = (case acc of EmptyArray \<Rightarrow> [] | Collected b \<Rightarrow> b),
                                   res_url = in_url r\<rparr>)))"

text \<open>The object literal of lines 149 to 165, read from \<open>options\<close>.\<close>

definition config :: "options \<Rightarrow> transport_config" where
  "config opts =
     \<lparr>cfg_allowRedirectHeaders = allowRedirectHeaders opts,
      cfg_headers = headers opts,
      cfg_followRedirects = (followRedirects opts \<noteq> JBool False),
      cfg_maxRedirects = maxRedirects opts,
      cfg_gzip = (gzip opts \<noteq> JBool False),
      cfg_cache = cache opts,
      cfg_agent = agent opts,
      cfg_timeout = timeout opts,
      cfg_socketTimeout = socketTimeout opts,
      cfg_retry = retry opts,
      cfg_retryDelay = retryDelay opts,
      cfg_maxRetries = maxRetries opts,
      cfg_isMatch = isMatch opts,
      cfg_isExpired = isExpired opts,
      cfg_canCache = canCache opts\<rparr>"

text \<open>
  \<open>ready\<close> (lines 148 to 185): the events it causes, and either the exception that the
  transport threw (\<open>Inl\<close>) or what the callback makes of the promise. The body is piped
  under the test \<open>req && body\<close>, after the transport has returned.
\<close>

definition ready ::
  "env \<Rightarrow> string \<Rightarrow> string \<Rightarrow> options \<Rightarrow> normalized_body option
     \<Rightarrow> event list \<times> (jsval + response settled)" where
  "ready e method url opts bdy =
     (case basicRequest e method url (config opts) of
        Throws ex \<Rightarrow> ([TransportInvoked method url (config opts)], Inl ex)
      | Returns req c \<Rightarrow>
          (TransportInvoked method url (config opts) #
             (case bdy of
                None \<Rightarrow> []
              | Some b \<Rightarrow> if req then [BodyPiped b] else []),
           Inr (on_completion c)))"

text \<open>
  The third argument of \<open>request\<close>: an options object, or any other value, among them
  \<open>undefined\<close> (the argument was omitted; the default \<open>{}\<close> and the test
  \<open>options == null\<close> both give the empty object) and \<open>null\<close>. An other value of
  type \<open>object\<close> (an array, a Buffer) passes the type test and has none of the fields
  of \<open>Options\<close>.
\<close>

datatype options_arg = ArgObject options | ArgOther jsval

fun arg_nullish :: "options_arg \<Rightarrow> bool" where
  "arg_nullish (ArgObject opts) = False"
| "arg_nullish (ArgOther v) = (v = JUndefined \<or> v = JNull)"

fun arg_typeof :: "options_arg \<Rightarrow> string" where
  "arg_typeof (ArgObject opts) = ''object''"
| "arg_typeof (ArgOther v) = typeof v"

fun arg_object :: "options_arg \<Rightarrow> options" where
  "arg_object (ArgObject opts) = opts"
| "arg_object (ArgOther v) = empty_options"

text \<open>The test of line 130 on the upper-cased method.\<close>

definition duplex :: "string \<Rightarrow> bool" where
  "duplex method = (\<not> (method = ''GET'' \<or> method = ''DELETE'' \<or> method = ''HEAD''))"

text \<open>The characters of a value known to be a string.\<close>

fun str_of :: "jsval \<Rightarrow> string" where
  "str_of (JStr s) = s"
| "str_of v = []"

definition throw :: "options \<Rightarrow> jsval \<Rightarrow> run" where
  "throw opts ex = \<lparr>trace = [], options_after = opts, thrown = Some ex, promise = Pending\<rparr>"

text \<open>
  The executor passed to \<open>new Promise\<close> (lines 105 to 186) together with the
  continuations it registers. A \<open>throw\<close> statement of the executor leaves it as an
  exception; an exception inside the continuation of \<open>getHeaders().then\<close> is caught by
  \<open>.catch(reject)\<close>, as is a rejection of \<open>getHeaders()\<close>.
\<close>

definition executor :: "env \<Rightarrow> jsval \<Rightarrow> jsval \<Rightarrow> options_arg \<Rightarrow> run" where
  "executor e method url arg =
     (if typeof method \<noteq> ''string'' then
        throw (arg_object arg) (JErr TypeError ''The method must be a string.'')
      else if typeof url \<noteq> ''string'' then
        throw (arg_object arg) (JErr TypeError ''The URL/path must be a string.'')
      else if \<not> arg_nullish arg \<and> arg_typeof arg \<noteq> ''object'' then
        throw (arg_object arg) (JErr TypeError ''Options must be an object (or null).'')
      else
        (let method1 = toUpperCase (str_of method);
             hs = own_headers (arg_object arg);
             opts = (arg_object arg)\<lparr>headers := Some hs\<rparr>;
             url1 = (if truthy (qs opts) then handleQs e (str_of url) (qs opts) else str_of url)
         in if duplex method1 then
              (case handleBody opts of
                 Inl ex \<Rightarrow> throw opts ex
               | Inr b \<Rightarrow>
                  (case getHeaders b of
                     Pending \<Rightarrow>
                       \<lparr>trace = [], options_after = opts, thrown = None, promise = Pending\<rparr>
                   | Rejected ex \<Rightarrow>
                       \<lparr>trace = [HeadersFailed ex], options_after = opts, thrown = None,
                        promise = Rejected ex\<rparr>
                   | Fulfilled bodyHeaders \<Rightarrow>
                       (let opts2 = opts\<lparr>headers := Some (merge_headers hs bodyHeaders)\<rparr>
                        in (case ready e method1 url1 opts2 (Some b) of
                              (evs, r) \<Rightarrow>
                                \<lparr>trace = HeadersResolved bodyHeaders # evs,
                                 options_after = opts2, thrown = None,
                                 promise = (case r of Inl ex \<Rightarrow> Rejected ex | Inr p \<Rightarrow> p)\<rparr>))))
            else if truthy (body opts) then
              throw opts (JErr Error (''You cannot pass a body to a '' @ method1 @ '' request.''))
            else
              (case ready e method1 url1 opts None of
                 (evs, r) \<Rightarrow>
                   (case r of
                      Inl ex \<Rightarrow> \<lparr>trace = evs, options_after = opts, thrown = Some ex, promise = Pending\<rparr>
                    | Inr p \<Rightarrow> \<lparr>trace = evs, options_after = opts, thrown = None, promise = p\<rparr>))))"

text \<open>
  \<open>new Promise(executor)\<close>: an exception that leaves the executor rejects the promise
  and goes no further.
\<close>

definition new_Promise :: "run \<Rightarrow> run" where
  "new_Promise r =
     (case thrown r of
        None \<Rightarrow> r
      | Some ex \<Rightarrow> r\<lparr>thrown := None, promise := settle (promise r) (Rejected ex)\<rparr>)"

text \<open>
  Modelled from the spec: \<open>toResponsePromise\<close> lives in \<open>./ResponsePromise\<close>, which is not
  among the sources. The public entry point returns the future of the response, so the
  wrapper hands its promise back as it is.
\<close>

definition toResponsePromise :: "run \<Rightarrow> run" where
  "toResponsePromise r = r"

text \<open>\<open>request\<close> (lines 104 to 187).\<close>

definition request :: "env \<Rightarrow> jsval \<Rightarrow> jsval \<Rightarrow> options_arg \<Rightarrow> run" where
  "request e method url arg = toResponsePromise (new_Promise (executor e method url arg))"

text \<open>The invocations of the transport during a run, in order, and the headers they received.\<close>

fun transport_calls :: "event list \<Rightarrow> (string \<times> string \<times> transport_config) list" where
  "transport_calls [] = []"
| "transport_calls (TransportInvoked m u cfg # evs) = (m, u, cfg) # transport_calls evs"
| "transport_calls (ev # evs) = transport_calls evs"

definition sent_headers :: "run \<Rightarrow> headers option list" where
  "sent_headers r = map (\<lambda>(m, u, cfg). cfg_headers cfg) (transport_calls (trace r))"

subsection \<open>Names for the stages of a call\<close>

text \<open>
  The arguments pass the three type tests of lines 108 to 119; the options object after
  line 122; the target after line 128; the options object after the loop of lines 134
  to 138 has merged the body headers \<open>B\<close>.
\<close>

definition valid_args :: "jsval \<Rightarrow> jsval \<Rightarrow> options_arg \<Rightarrow> bool" where
  "valid_args method url arg =
     (typeof method = ''string'' \<and> typeof url = ''string'' \<and>
      (arg_nullish arg \<or> arg_typeof arg = ''object''))"

definition started :: "options_arg \<Rightarrow> options" where
  "started arg = (arg_object arg)\<lparr>headers := Some (own_headers (arg_object arg))\<rparr>"

definition target :: "env \<Rightarrow> jsval \<Rightarrow> options_arg \<Rightarrow> string" where
  "target e url arg =
     (if truthy (qs (arg_object arg)) then handleQs e (str_of url) (qs (arg_object arg))
      else str_of url)"

definition merged :: "options_arg \<Rightarrow> headers \<Rightarrow> options" where
  "merged arg B =
     (arg_object arg)\<lparr>headers := Some (merge_headers (own_headers (arg_object arg)) B)\<rparr>"

subsection \<open>Example collaborators\<close>

text \<open>A transport that accepts every request, returns a sink and never completes.\<close>

definition silent_transport :: env where
  "silent_transport =
     \<lparr>handleQs = (\<lambda>url q. url), basicRequest = (\<lambda>m u cfg. Returns True NoCompletion)\<rparr>"

text \<open>
  A form whose length computation reports a string error first, then a length, then an
  error object.
\<close>

definition failing_form :: form_data where
  "failing_form =
     \<lparr>form_headers = [(''content-type'', HStr ''multipart/form-data'')],
      length_calls = [(JStr ''Unknown stream'', 0), (JNull, 12), (JErr Error ''late'', 0)]\<rparr>"

section \<open>Properties of the helpers\<close>

subsection \<open>Strings and serialisation\<close>

lemma string_of_nat_1: "string_of_nat (Suc 0) = ''1''"
  by (simp add: string_of_nat.simps[of "Suc 0"] digit_char_def)

lemma stringify_example: "JSON_stringify (JObj [(''a'', JNum 1)]) = JStr ''{\"a\":1}''"
  by (simp add: JSON_stringify_def quote_def escape_char_def string_of_int_def string_of_nat_1)

lemma string_of_nat_0: "string_of_nat 0 = ''0''"
  by (simp add: string_of_nat.simps[of 0] digit_char_def)

lemma string_of_nat_7: "string_of_nat 7 = ''7''"
  by (simp add: string_of_nat.simps[of 7] digit_char_def)

lemma string_of_nat_7_Suc: "string_of_nat (Suc (Suc (Suc (Suc (Suc (Suc (Suc 0))))))) = ''7''"
  using string_of_nat_7 by (simp add: eval_nat_numeral)

lemma upper_post: "toUpperCase ''post'' = ''POST''"
  by (simp add: toUpperCase_def upper_char_def lower_letters_def upper_letters_def)

lemma upper_POST: "toUpperCase ''POST'' = ''POST''"
  by (simp add: toUpperCase_def upper_char_def lower_letters_def upper_letters_def)

lemma upper_GET: "toUpperCase ''GET'' = ''GET''"
  by (simp add: toUpperCase_def upper_char_def lower_letters_def upper_letters_def)

lemma lower_content_type: "toLowerCase ''content-type'' = ''content-type''"
  by (simp add: toLowerCase_def lower_char_def lower_letters_def upper_letters_def)

lemma lower_content_length: "toLowerCase ''content-length'' = ''content-length''"
  by (simp add: toLowerCase_def lower_char_def lower_letters_def upper_letters_def)

subsection \<open>The header merge\<close>

lemma map_of_prop_set: "map_of (prop_set d k v) = (map_of d)(k \<mapsto> v)"
  by (induction d k v rule: prop_set.induct) auto

lemma caseless_has_None_iff:
  "caseless_has d name = None \<longleftrightarrow> (\<forall>k \<in> fst ` set d. toLowerCase k \<noteq> toLowerCase name)"
  by (induction d) (auto split: if_splits)

lemma caseless_has_lower:
  "toLowerCase k = toLowerCase name \<Longrightarrow> (caseless_has d k = None) = (caseless_has d name = None)"
  by (simp add: caseless_has_None_iff)

lemma caseless_has_None_map_of: "caseless_has d name = None \<Longrightarrow> map_of d name = None"
  by (induction d) (auto split: if_splits)

lemma caseless_set_fresh:
  "caseless_has d name = None \<Longrightarrow> caseless_set d name v = d @ [(name, v)]"
  unfolding caseless_set_def
proof (induction d)
  case Nil then show ?case by simp
next
  case (Cons p d)
  then show ?case by (cases p) (auto split: if_splits)
qed

lemma caseless_has_append:
  "caseless_has (d @ d') name = (case caseless_has d name of None \<Rightarrow> caseless_has d' name | Some k \<Rightarrow> Some k)"
  by (induction d) auto

lemma merge_keeps_present:
  "caseless_has d key \<noteq> None \<Longrightarrow> toLowerCase k = toLowerCase key \<Longrightarrow>
   map_of (merge_headers d B) k = map_of d k"
proof (induction d B rule: merge_headers.induct)
  case (1 d) then show ?case by simp
next
  case (2 d key' v B)
  note IH = "2.IH" and present = "2.prems"(1) and same = "2.prems"(2)
  show ?case
  proof (cases "caseless_has d key'")
    case None
    note True = None
    have ne: "toLowerCase key' \<noteq> toLowerCase key"
      using True present caseless_has_lower[of key' key d] by auto
    then have kne: "k \<noteq> key'" using same by auto
    have "caseless_has (d @ [(key', v)]) key \<noteq> None"
      using present by (auto simp: caseless_has_append split: option.splits)
    then have "map_of (merge_headers (d @ [(key', v)]) B) k = map_of (d @ [(key', v)]) k"
      using IH same True by (simp add: caseless_set_fresh)
    then show ?thesis using True kne by (simp add: caseless_set_fresh map_add_def split: option.splits)
  next
    case (Some y)
    then show ?thesis using IH present same by simp
  qed
qed

lemma merge_keeps_entries:
  "map_of d k = Some v \<Longrightarrow> map_of (merge_headers d B) k = Some v"
proof -
  assume a: "map_of d k = Some v"
  then have "caseless_has d k \<noteq> None" using caseless_has_None_map_of[of d k] by auto
  then show ?thesis using merge_keeps_present[of d k k B] a by simp
qed

lemma merge_changes_only_absent:
  "map_of (merge_headers d B) k \<noteq> map_of d k \<Longrightarrow>
   caseless_has d k = None \<and> map_of (merge_headers d B) k = map_of B k"
proof (induction d B rule: merge_headers.induct)
  case (1 d) then show ?case by simp
next
  case (2 d key v B)
  note IH = "2.IH" and changed = "2.prems"
  have absent: "caseless_has d k = None"
    using changed merge_keeps_present[of d k k "(key, v) # B"] by blast
  show ?case
  proof (cases "caseless_has d key")
    case None
    note True = None
    let ?d' = "d @ [(key, v)]"
    have step: "merge_headers d ((key, v) # B) = merge_headers ?d' B"
      using True by (simp add: caseless_set_fresh)
    show ?thesis
    proof (cases "k = key")
      case keq: True
      have "map_of ?d' k = Some v"
        using caseless_has_None_map_of[OF absent] keq by (simp add: map_add_def)
      then have "map_of (merge_headers ?d' B) k = Some v" by (rule merge_keeps_entries)
      then show ?thesis using absent step keq by simp
    next
      case False
      have same: "map_of ?d' k = map_of d k"
        using False by (simp add: map_add_def split: option.splits)
      then have "map_of (merge_headers ?d' B) k \<noteq> map_of ?d' k" using changed step by simp
      then have "map_of (merge_headers ?d' B) k = map_of B k"
        using IH True by (simp add: caseless_set_fresh)
      then show ?thesis using absent step False by simp
    qed
  next
    case (Some y)
    then have step: "merge_headers d ((key, v) # B) = merge_headers d B" by simp
    then have ih: "map_of (merge_headers d B) k = map_of B k" using IH Some changed by simp
    have "k \<noteq> key" using Some absent by auto
    then show ?thesis using absent step ih by simp
  qed
qed

lemma merge_adds_absent:
  "caseless_has d k = None \<Longrightarrow> map_of B k = Some v \<Longrightarrow>
   (\<forall>k' \<in> fst ` set B. toLowerCase k' = toLowerCase k \<longrightarrow> k' = k) \<Longrightarrow>
   map_of (merge_headers d B) k = Some v"
proof (induction d B rule: merge_headers.induct)
  case (1 d) then show ?case by simp
next
  case (2 d key w B)
  note IH = "2.IH" and absent = "2.prems"(1) and found = "2.prems"(2) and only = "2.prems"(3)
  show ?case
  proof (cases "key = k")
    case True
    then have "w = v" using found by simp
    then have "map_of (d @ [(k, v)]) k = Some v"
      using caseless_has_None_map_of[OF absent] by (simp add: map_add_def)
    then have "map_of (merge_headers (d @ [(k, v)]) B) k = Some v" by (rule merge_keeps_entries)
    then show ?thesis using True absent \<open>w = v\<close> by (simp add: caseless_set_fresh)
  next
    case False
    then have ne: "toLowerCase key \<noteq> toLowerCase k" using only by auto
    have found': "map_of B k = Some v" using found False by simp
    have only': "\<forall>k' \<in> fst ` set B. toLowerCase k' = toLowerCase k \<longrightarrow> k' = k" using only by simp
    show ?thesis
    proof (cases "caseless_has d key")
      case None
      have "caseless_has (d @ [(key, w)]) k = None"
        using absent ne by (simp add: caseless_has_append)
      then have "map_of (merge_headers (d @ [(key, w)]) B) k = Some v"
        using IH None found' only' by (simp add: caseless_set_fresh)
      then show ?thesis using None by (simp add: caseless_set_fresh)
    next
      case (Some y)
      then show ?thesis using IH absent found' only' by simp
    qed
  qed
qed

subsection \<open>Body selection\<close>

lemma handleBody_headers_update [simp]: "handleBody (opts\<lparr>headers := h\<rparr>) = handleBody opts"
  by (cases "form opts") (simp_all add: handleBody_def)

lemma handleBody_falsy:
  "form opts = None \<Longrightarrow> \<not> truthy (json opts) \<Longrightarrow> \<not> truthy (body opts) \<Longrightarrow>
   handleBody opts = Inr (BufferBody [] [])"
  by (cases "body opts") (simp_all add: handleBody_def Buffer_from_def)

lemma handleBody_json_absent:
  "\<not> truthy (json opts) \<Longrightarrow> handleBody opts = handleBody (opts\<lparr>json := JUndefined\<rparr>)"
  by (cases "form opts") (simp_all add: handleBody_def)

lemma handleBody_no_extra:
  "form opts = None \<Longrightarrow> \<not> truthy (json opts) \<Longrightarrow> handleBody opts = Inr (BufferBody b hs) \<Longrightarrow>
   hs = []"
  by (cases "body opts") (auto simp: handleBody_def Let_def split: if_splits jsval.splits)

lemma handleBody_string:
  "form opts = None \<Longrightarrow> \<not> truthy (json opts) \<Longrightarrow> body opts = JStr s \<Longrightarrow>
   handleBody opts = Inr (BufferBody s [])"
  by (simp add: handleBody_def Buffer_from_def)

lemma handleBody_buffer:
  "form opts = None \<Longrightarrow> \<not> truthy (json opts) \<Longrightarrow> body opts = JBuffer b \<Longrightarrow>
   handleBody opts = Inr (BufferBody b [])"
  by (simp add: handleBody_def)

lemma handleBody_unrecognized:
  "form opts = None \<Longrightarrow> \<not> truthy (json opts) \<Longrightarrow> truthy (body opts) \<Longrightarrow>
   typeof (body opts) \<noteq> ''string'' \<Longrightarrow> \<not> isBuffer (body opts) \<Longrightarrow>
   typeof (get_prop (body opts) ''pipe'') \<noteq> ''function'' \<Longrightarrow>
   handleBody opts = Inl (JErr TypeError ''body should be a Buffer or a String'')"
  by (cases "body opts") (simp_all add: handleBody_def)

subsection \<open>The length callback of a form\<close>

lemma length_callback_done: "gotLength st \<Longrightarrow> length_callback hs st call = st"
  by (cases call) (simp add: length_callback_def)

lemma foldl_length_callback_done: "gotLength st \<Longrightarrow> foldl (length_callback hs) st calls = st"
  by (induction calls) (simp_all add: length_callback_done)

lemma length_callback_sets_flag: "gotLength (length_callback hs st call)"
  by (cases call) (simp add: length_callback_def)

lemma FormBody_run_first:
  "length_calls f = call # rest \<Longrightarrow>
   FormBody_run f =
     length_callback (form_headers f) \<lparr>gotLength = False, result = Pending, settle_calls = 0\<rparr> call"
  by (simp add: FormBody_run_def foldl_length_callback_done length_callback_sets_flag)

lemma FormBody_run_settles_once: "settle_calls (FormBody_run f) \<le> 1"
proof (cases "length_calls f")
  case Nil
  then show ?thesis by (simp add: FormBody_run_def)
next
  case (Cons call rest)
  then show ?thesis
    by (cases call) (simp add: FormBody_run_first length_callback_def)
qed

subsection \<open>The paths through the dispatch\<close>

lemma request_never_throws: "thrown (request e method url arg) = None"
  by (simp add: request_def toResponsePromise_def new_Promise_def split: option.splits)

lemma request_bad_method:
  "typeof method \<noteq> ''string'' \<Longrightarrow>
   request e method url arg =
     \<lparr>trace = [], options_after = arg_object arg, thrown = None,
      promise = Rejected (JErr TypeError ''The method must be a string.'')\<rparr>"
  by (simp add: request_def toResponsePromise_def new_Promise_def executor_def throw_def)

lemma request_bad_url:
  "typeof method = ''string'' \<Longrightarrow> typeof url \<noteq> ''string'' \<Longrightarrow>
   request e method url arg =
     \<lparr>trace = [], options_after = arg_object arg, thrown = None,
      promise = Rejected (JErr TypeError ''The URL/path must be a string.'')\<rparr>"
  by (simp add: request_def toResponsePromise_def new_Promise_def executor_def throw_def)

lemma request_bad_options:
  "typeof method = ''string'' \<Longrightarrow> typeof url = ''string'' \<Longrightarrow>
   \<not> arg_nullish arg \<Longrightarrow> arg_typeof arg \<noteq> ''object'' \<Longrightarrow>
   request e method url arg =
     \<lparr>trace = [], options_after = arg_object arg, thrown = None,
      promise = Rejected (JErr TypeError ''Options must be an object (or null).'')\<rparr>"
  by (simp add: request_def toResponsePromise_def new_Promise_def executor_def throw_def)

lemma request_body_throws:
  "valid_args method url arg \<Longrightarrow> duplex (toUpperCase (str_of method)) \<Longrightarrow>
   handleBody (arg_object arg) = Inl ex \<Longrightarrow>
   request e method url arg =
     \<lparr>trace = [], options_after = started arg, thrown = None, promise = Rejected ex\<rparr>"
  by (auto simp: valid_args_def started_def request_def toResponsePromise_def new_Promise_def
      executor_def throw_def Let_def)

lemma request_headers_pending:
  "valid_args method url arg \<Longrightarrow> duplex (toUpperCase (str_of method)) \<Longrightarrow>
   handleBody (arg_object arg) = Inr b \<Longrightarrow> getHeaders b = Pending \<Longrightarrow>
   request e method url arg =
     \<lparr>trace = [], options_after = started arg, thrown = None, promise = Pending\<rparr>"
  by (auto simp: valid_args_def started_def request_def toResponsePromise_def new_Promise_def
      executor_def throw_def Let_def)

lemma request_headers_rejected:
  "valid_args method url arg \<Longrightarrow> duplex (toUpperCase (str_of method)) \<Longrightarrow>
   handleBody (arg_object arg) = Inr b \<Longrightarrow> getHeaders b = Rejected ex \<Longrightarrow>
   request e method url arg =
     \<lparr>trace = [HeadersFailed ex], options_after = started arg, thrown = None,
      promise = Rejected ex\<rparr>"
  by (auto simp: valid_args_def started_def request_def toResponsePromise_def new_Promise_def
      executor_def throw_def Let_def)

lemma request_headers_fulfilled:
  "valid_args method url arg \<Longrightarrow> duplex (toUpperCase (str_of method)) \<Longrightarrow>
   handleBody (arg_object arg) = Inr b \<Longrightarrow> getHeaders b = Fulfilled B \<Longrightarrow>
   request e method url arg =
     \<lparr>trace = HeadersResolved B #
        fst (ready e (toUpperCase (str_of method)) (target e url arg) (merged arg B) (Some b)),
      options_after = merged arg B, thrown = None,
      promise = (case snd (ready e (toUpperCase (str_of method)) (target e url arg) (merged arg B) (Some b)) of
                   Inl ex \<Rightarrow> Rejected ex | Inr p \<Rightarrow> p)\<rparr>"
  by (auto simp: valid_args_def merged_def target_def request_def toResponsePromise_def new_Promise_def
      executor_def throw_def Let_def split: prod.splits)

lemma request_bodyless_body:
  "valid_args method url arg \<Longrightarrow> \<not> duplex (toUpperCase (str_of method)) \<Longrightarrow>
   truthy (body (arg_object arg)) \<Longrightarrow>
   request e method url arg =
     \<lparr>trace = [], options_after = started arg, thrown = None,
      promise = Rejected (JErr Error (''You cannot pass a body to a '' @ toUpperCase (str_of method) @ '' request.''))\<rparr>"
  by (auto simp: valid_args_def started_def request_def toResponsePromise_def new_Promise_def
      executor_def throw_def Let_def)

lemma request_bodyless:
  "valid_args method url arg \<Longrightarrow> \<not> duplex (toUpperCase (str_of method)) \<Longrightarrow>
   \<not> truthy (body (arg_object arg)) \<Longrightarrow>
   request e method url arg =
     \<lparr>trace = fst (ready e (toUpperCase (str_of method)) (target e url arg) (started arg) None),
      options_after = started arg, thrown = None,
      promise = (case snd (ready e (toUpperCase (str_of method)) (target e url arg) (started arg) None) of
                   Inl ex \<Rightarrow> Rejected ex | Inr p \<Rightarrow> p)\<rparr>"
  by (auto simp: valid_args_def started_def target_def request_def toResponsePromise_def new_Promise_def
      executor_def throw_def Let_def split: prod.splits sum.splits)

lemma ready_calls: "transport_calls (fst (ready e m u opts bdy)) = [(m, u, config opts)]"
  by (simp add: ready_def split: transport_result.splits option.splits)

lemma ready_trace_cases:
  "fst (ready e m u opts bdy) = [TransportInvoked m u (config opts)] \<or>
   (\<exists>b c. bdy = Some b \<and> basicRequest e m u (config opts) = Returns True c \<and>
      fst (ready e m u opts bdy) = [TransportInvoked m u (config opts), BodyPiped b])"
  by (auto simp: ready_def split: transport_result.splits option.splits)

lemma valid_or_failed:
  "valid_args method url arg \<or>
   (trace (request e method url arg) = [] \<and> options_after (request e method url arg) = arg_object arg)"
proof (cases "valid_args method url arg")
  case True then show ?thesis by simp
next
  case False
  then consider "typeof method \<noteq> ''string''"
    | "typeof method = ''string''" "typeof url \<noteq> ''string''"
    | "typeof method = ''string''" "typeof url = ''string''" "\<not> arg_nullish arg" "arg_typeof arg \<noteq> ''object''"
    by (auto simp: valid_args_def)
  then show ?thesis
    by cases (simp_all add: request_bad_method request_bad_url request_bad_options)
qed

lemma request_cases:
  "(trace (request e method url arg) = [] \<and>
      (options_after (request e method url arg) = arg_object arg \<or>
       options_after (request e method url arg) = started arg)) \<or>
   (\<exists>b ex. valid_args method url arg \<and> duplex (toUpperCase (str_of method)) \<and>
      handleBody (arg_object arg) = Inr b \<and> getHeaders b = Rejected ex \<and>
      trace (request e method url arg) = [HeadersFailed ex] \<and>
      options_after (request e method url arg) = started arg) \<or>
   (\<exists>b B. valid_args method url arg \<and> duplex (toUpperCase (str_of method)) \<and>
      handleBody (arg_object arg) = Inr b \<and> getHeaders b = Fulfilled B \<and>
      trace (request e method url arg) =
        HeadersResolved B #
        fst (ready e (toUpperCase (str_of method)) (target e url arg) (merged arg B) (Some b)) \<and>
      options_after (request e method url arg) = merged arg B) \<or>
   (valid_args method url arg \<and> \<not> duplex (toUpperCase (str_of method)) \<and>
      trace (request e method url arg) =
        fst (ready e (toUpperCase (str_of method)) (target e url arg) (started arg) None) \<and>
      options_after (request e method url arg) = started arg)"
proof (cases "valid_args method url arg")
  case False
  then show ?thesis using valid_or_failed[of "method" url arg e] by simp
next
  case v: True
  show ?thesis
  proof (cases "duplex (toUpperCase (str_of method))")
    case d: True
    show ?thesis
    proof (cases "handleBody (arg_object arg)")
      case (Inl ex)
      then show ?thesis by (simp add: request_body_throws[OF v d Inl])
    next
      case (Inr b)
      show ?thesis
      proof (cases "getHeaders b")
        case Pending
        then show ?thesis by (simp add: request_headers_pending[OF v d Inr Pending])
      next
        case (Fulfilled B)
        then show ?thesis using v d Inr by (simp add: request_headers_fulfilled[OF v d Inr Fulfilled])
      next
        case (Rejected ex)
        then show ?thesis using v d Inr by (simp add: request_headers_rejected[OF v d Inr Rejected])
      qed
    qed
  next
    case nd: False
    show ?thesis
    proof (cases "truthy (body (arg_object arg))")
      case True
      then show ?thesis by (simp add: request_bodyless_body[OF v nd True])
    next
      case False
      then show ?thesis using v nd by (simp add: request_bodyless[OF v nd False])
    qed
  qed
qed

lemma duplex_sent_headers:
  assumes "typeof method = ''string''" and "typeof url = ''string''"
    and "duplex (toUpperCase (str_of method))"
    and "handleBody opts = Inr b" and "getHeaders b = Fulfilled B"
  shows "sent_headers (request e method url (ArgObject opts)) =
           [Some (merge_headers (own_headers opts) B)]"
proof -
  have v: "valid_args method url (ArgObject opts)"
    using assms(1,2) by (simp add: valid_args_def)
  have h: "handleBody (arg_object (ArgObject opts)) = Inr b" using assms(4) by simp
  show ?thesis
    by (simp add: sent_headers_def request_headers_fulfilled[OF v assms(3) h assms(5)]
        ready_calls merged_def own_headers_def config_def)
qed

text \<open>The definitions unfolded when a run is evaluated on concrete arguments.\<close>

lemmas run_defs = request_def toResponsePromise_def new_Promise_def executor_def throw_def
  Let_def duplex_def handleBody_def empty_options_def silent_transport_def ready_def
  on_completion_def BufferBody_getHeaders_def StreamBody_getHeaders_def Buffer_from_def
  own_headers_def sent_headers_def config_def caseless_set_def string_of_nat_0

section \<open>The claims\<close>

text \<open>
  Claim C1. For a bodyless verb (GET, DELETE, HEAD) and options in which any of body,
  json or form is supplied, the future rejects with "You cannot pass a body to a
  <METHOD> request." and the transport is never invoked.

  The bodyless branch of \<open>request\<close> tests \<open>options.body\<close> only (line 141), whereas
  \<open>handleBody\<close> takes a body from \<open>form\<close>, \<open>json\<close> or \<open>body\<close>. A GET request that carries
  \<open>json\<close> is therefore dispatched without any body and without an error: the run below
  invokes the transport once and its promise is not rejected.
\<close>

theorem bodyless_json_dispatched:
  "trace (request silent_transport (JStr ''GET'') (JStr ''http://x/'')
       (ArgObject (empty_options\<lparr>json := JObj [(''a'', JNum 1)]\<rparr>))) =
     [TransportInvoked ''GET'' ''http://x/''
        (config (empty_options\<lparr>json := JObj [(''a'', JNum 1)], headers := Some []\<rparr>))] \<and>
   promise (request silent_transport (JStr ''GET'') (JStr ''http://x/'')
       (ArgObject (empty_options\<lparr>json := JObj [(''a'', JNum 1)]\<rparr>))) = Pending"
  by (simp add: run_defs upper_GET)

text \<open>
  What the bodyless branch does guarantee: a truthy \<open>options.body\<close> is rejected with the
  message, before any invocation of the transport.
\<close>

lemma bodyless_body_rejected:
  assumes "typeof method = ''string''" and "typeof url = ''string''"
    and "\<not> duplex (toUpperCase (str_of method))"
    and "truthy (body opts)"
  shows "promise (request e method url (ArgObject opts)) =
           Rejected (JErr Error (''You cannot pass a body to a '' @
                                  toUpperCase (str_of method) @ '' request.'')) \<and>
         transport_calls (trace (request e method url (ArgObject opts))) = []"
proof -
  have v: "valid_args method url (ArgObject opts)"
    using assms(1,2) by (simp add: valid_args_def)
  have b: "truthy (body (arg_object (ArgObject opts)))" using assms(4) by simp
  show ?thesis by (simp add: request_bodyless_body[OF v assms(3) b])
qed

text \<open>
  Claim C2. For every caller header map \<open>H\<close> and every body-derived header map \<open>B\<close>, a
  key present in both under case-insensitive comparison keeps the value of \<open>H\<close> in the
  header map passed to the transport; body-derived headers are only added for keys not
  already present in \<open>H\<close>.

  The transport is invoked once, with the merge of \<open>B\<close> into \<open>H\<close>. In the merge every key
  that matches a key of \<open>H\<close> case-insensitively is mapped as in \<open>H\<close>, and a key whose
  entry differs from that of \<open>H\<close> is absent from \<open>H\<close> and carries the value of \<open>B\<close>.
\<close>

theorem caller_headers_win:
  assumes "typeof method = ''string''" and "typeof url = ''string''"
    and "duplex (toUpperCase (str_of method))"
    and "headers opts = Some H"
    and "handleBody opts = Inr b" and "getHeaders b = Fulfilled B"
  shows "sent_headers (request e method url (ArgObject opts)) = [Some (merge_headers H B)] \<and>
         (\<forall>key k. caseless_has H key \<noteq> None \<longrightarrow> toLowerCase k = toLowerCase key \<longrightarrow>
             map_of (merge_headers H B) k = map_of H k) \<and>
         (\<forall>k. map_of (merge_headers H B) k \<noteq> map_of H k \<longrightarrow>
             caseless_has H k = None \<and> map_of (merge_headers H B) k = map_of B k)"
proof -
  have own: "own_headers opts = H" using assms(4) by (simp add: own_headers_def)
  have "sent_headers (request e method url (ArgObject opts)) = [Some (merge_headers H B)]"
    using duplex_sent_headers[OF assms(1,2,3,5,6), of e] own by simp
  then show ?thesis
    using merge_keeps_present[of H _ _ B] merge_changes_only_absent[of H B] by blast
qed

theorem caller_headers_win_witness:
  "typeof (JStr ''put'') = ''string'' \<and> typeof (JStr ''http://x/'') = ''string'' \<and>
   duplex (toUpperCase (str_of (JStr ''put''))) \<and>
   headers (empty_options\<lparr>body := JStr ''hi'', headers := Some [(''Content-Length'', HStr ''9'')]\<rparr>) =
     Some [(''Content-Length'', HStr ''9'')] \<and>
   handleBody (empty_options\<lparr>body := JStr ''hi'', headers := Some [(''Content-Length'', HStr ''9'')]\<rparr>) =
     Inr (BufferBody ''hi'' []) \<and>
   getHeaders (BufferBody ''hi'' []) = Fulfilled [(''content-length'', HStr ''2'')] \<and>
   caseless_has [(''Content-Length'', HStr ''9'')] ''content-length'' \<noteq> None \<and>
   sent_headers (request silent_transport (JStr ''put'') (JStr ''http://x/'')
     (ArgObject (empty_options\<lparr>body := JStr ''hi'', headers := Some [(''Content-Length'', HStr ''9'')]\<rparr>))) =
     [Some [(''Content-Length'', HStr ''9'')]]"
proof -
  let ?opts = "empty_options\<lparr>body := JStr ''hi'', headers := Some [(''Content-Length'', HStr ''9'')]\<rparr>"
  let ?H = "[(''Content-Length'', HStr ''9'')]"
  let ?B = "[(''content-length'', HStr ''2'')]"
  have h1: "typeof (JStr ''put'') = ''string''" by simp
  have h2: "typeof (JStr ''http://x/'') = ''string''" by simp
  have h3: "duplex (toUpperCase (str_of (JStr ''put'')))"
    by (simp add: duplex_def toUpperCase_def upper_char_def lower_letters_def upper_letters_def)
  have h4: "headers ?opts = Some ?H" by simp
  have h5: "handleBody ?opts = Inr (BufferBody ''hi'' [])"
    by (simp add: handleBody_def empty_options_def Buffer_from_def)
  have h6: "getHeaders (BufferBody ''hi'' []) = Fulfilled ?B"
    by (simp add: BufferBody_getHeaders_def string_of_nat.simps[of "Suc (Suc 0)"] digit_char_def)
  have has: "caseless_has ?H ''content-length'' \<noteq> None"
    by (simp add: toLowerCase_def lower_char_def lower_letters_def upper_letters_def)
  have m: "merge_headers ?H ?B = ?H"
    using has by auto
  from caller_headers_win[OF h1 h2 h3 h4 h5 h6, of silent_transport]
  have "sent_headers (request silent_transport (JStr ''put'') (JStr ''http://x/'') (ArgObject ?opts)) =
          [Some (merge_headers ?H ?B)]" by blast
  then have s: "sent_headers (request silent_transport (JStr ''put'') (JStr ''http://x/'') (ArgObject ?opts)) =
          [Some ?H]" using m by simp
  show ?thesis using h1 h2 h3 h4 h5 h6 has s by blast
qed

text \<open>
  Claim C3. When the \<open>getLength\<close> callback of a form is invoked with an error,
  \<open>FormBody.getHeaders\<close> rejects with an error object (a string error is wrapped into an
  \<open>Error\<close>, never propagated as a raw string), and the returned future settles at most
  once even if the callback fires two or more times, in any success/failure order; the
  first invocation wins and later ones are ignored.

  An error is a truthy \<open>err\<close> argument. The rejection reason is \<open>new Error(err)\<close> for a
  string and \<open>err\<close> itself otherwise, so it is never a string. Whatever the callback
  sequence, \<open>resolve\<close> or \<open>reject\<close> is called at most once, and the whole outcome is
  that of the first invocation alone.
\<close>

theorem form_length_failure:
  "(length_calls f = (err, len) # rest \<longrightarrow> truthy err \<longrightarrow>
      FormBody_getHeaders f = Rejected (case err of JStr m \<Rightarrow> JErr Error m | _ \<Rightarrow> err) \<and>
      (\<forall>s. FormBody_getHeaders f \<noteq> Rejected (JStr s)) \<and>
      settle_calls (FormBody_run f) = 1) \<and>
   (length_calls f = call # rest \<longrightarrow>
      FormBody_run f = FormBody_run (f\<lparr>length_calls := [call]\<rparr>)) \<and>
   settle_calls (FormBody_run f) \<le> 1"
proof (intro conjI impI)
  assume calls: "length_calls f = (err, len) # rest" and err: "truthy err"
  show r: "FormBody_getHeaders f = Rejected (case err of JStr m \<Rightarrow> JErr Error m | _ \<Rightarrow> err)"
    using err
    by (cases err)
      (simp_all add: FormBody_getHeaders_def FormBody_run_first[OF calls] length_callback_def)
  show "\<forall>s. FormBody_getHeaders f \<noteq> Rejected (JStr s)"
    unfolding r by (cases err) simp_all
  show "settle_calls (FormBody_run f) = 1"
    using err by (simp add: FormBody_run_first[OF calls] length_callback_def)
next
  assume calls: "length_calls f = call # rest"
  have "length_calls (f\<lparr>length_calls := [call]\<rparr>) = call # []" by simp
  then have "FormBody_run (f\<lparr>length_calls := [call]\<rparr>) =
     length_callback (form_headers (f\<lparr>length_calls := [call]\<rparr>))
       \<lparr>gotLength = False, result = Pending, settle_calls = 0\<rparr> call"
    by (rule FormBody_run_first)
  then show "FormBody_run f = FormBody_run (f\<lparr>length_calls := [call]\<rparr>)"
    by (simp add: FormBody_run_first[OF calls])
next
  show "settle_calls (FormBody_run f) \<le> 1" by (rule FormBody_run_settles_once)
qed

theorem form_length_failure_witness:
  "length_calls failing_form =
     (JStr ''Unknown stream'', 0) # [(JNull, 12), (JErr Error ''late'', 0)] \<and>
   truthy (JStr ''Unknown stream'') \<and>
   FormBody_getHeaders failing_form = Rejected (JErr Error ''Unknown stream'') \<and>
   settle_calls (FormBody_run failing_form) = 1 \<and>
   FormBody_run failing_form =
     FormBody_run (failing_form\<lparr>length_calls := [(JStr ''Unknown stream'', 0)]\<rparr>)"
proof -
  have calls: "length_calls failing_form =
      (JStr ''Unknown stream'', 0) # [(JNull, 12), (JErr Error ''late'', 0)]"
    by (simp add: failing_form_def)
  have err: "truthy (JStr ''Unknown stream'')" by simp
  note t = form_length_failure[of failing_form "JStr ''Unknown stream''" 0
      "[(JNull, 12), (JErr Error ''late'', 0)]" "(JStr ''Unknown stream'', 0)"]
  from t calls err have
    "FormBody_getHeaders failing_form =
       Rejected (case JStr ''Unknown stream'' of JStr m \<Rightarrow> JErr Error m | _ \<Rightarrow> JStr ''Unknown stream'')"
    by blast
  then have a: "FormBody_getHeaders failing_form = Rejected (JErr Error ''Unknown stream'')"
    by simp
  from t calls err have b: "settle_calls (FormBody_run failing_form) = 1" by blast
  from t calls have c: "FormBody_run failing_form =
     FormBody_run (failing_form\<lparr>length_calls := [(JStr ''Unknown stream'', 0)]\<rparr>)"
    by blast
  show ?thesis using calls err a b c by blast
qed

text \<open>
  Claim C4. For every duplex verb (any method other than GET, DELETE, HEAD after
  upper-casing) with no body, json or form supplied, the body selector produces a Buffer
  variant wrapping a zero-length byte sequence, and the headers resolved for it include
  content-length equal to "0"; the body is never omitted.

  The transport receives the merge of that one header into the caller's headers, and
  so content-length "0" whenever the caller has no content-length of its own.
\<close>

theorem absent_body_empty_buffer:
  assumes "typeof method = ''string''" and "typeof url = ''string''"
    and "duplex (toUpperCase (str_of method))"
    and "form opts = None" and "\<not> truthy (json opts)" and "\<not> truthy (body opts)"
  shows "handleBody opts = Inr (BufferBody [] []) \<and>
         getHeaders (BufferBody [] []) = Fulfilled [(''content-length'', HStr ''0'')] \<and>
         sent_headers (request e method url (ArgObject opts)) =
           [Some (merge_headers (own_headers opts) [(''content-length'', HStr ''0'')])] \<and>
         (caseless_has (own_headers opts) ''content-length'' = None \<longrightarrow>
            map_of (merge_headers (own_headers opts) [(''content-length'', HStr ''0'')])
              ''content-length'' = Some (HStr ''0''))"
proof -
  have b: "handleBody opts = Inr (BufferBody [] [])"
    using assms(4,5,6) by (rule handleBody_falsy)
  have h: "getHeaders (BufferBody [] []) = Fulfilled [(''content-length'', HStr ''0'')]"
    by (simp add: BufferBody_getHeaders_def string_of_nat_0)
  have s: "sent_headers (request e method url (ArgObject opts)) =
           [Some (merge_headers (own_headers opts) [(''content-length'', HStr ''0'')])]"
    by (rule duplex_sent_headers[OF assms(1,2,3) b h])
  have m: "caseless_has (own_headers opts) ''content-length'' = None \<Longrightarrow>
            map_of (merge_headers (own_headers opts) [(''content-length'', HStr ''0'')])
              ''content-length'' = Some (HStr ''0'')"
    by (rule merge_adds_absent) simp_all
  show ?thesis using b h s m by blast
qed

theorem absent_body_empty_buffer_witness:
  "typeof (JStr ''post'') = ''string'' \<and> typeof (JStr ''http://x/'') = ''string'' \<and>
   duplex (toUpperCase (str_of (JStr ''post''))) \<and>
   form empty_options = None \<and> \<not> truthy (json empty_options) \<and>
   \<not> truthy (body empty_options) \<and>
   handleBody empty_options = Inr (BufferBody [] []) \<and>
   sent_headers (request silent_transport (JStr ''post'') (JStr ''http://x/'')
     (ArgObject empty_options)) = [Some [(''content-length'', HStr ''0'')]]"
proof -
  have h1: "typeof (JStr ''post'') = ''string''" by simp
  have h2: "typeof (JStr ''http://x/'') = ''string''" by simp
  have h3: "duplex (toUpperCase (str_of (JStr ''post'')))"
    by (simp add: duplex_def upper_post)
  have h4: "form empty_options = None" by (simp add: empty_options_def)
  have h5: "\<not> truthy (json empty_options)" by (simp add: empty_options_def)
  have h6: "\<not> truthy (body empty_options)" by (simp add: empty_options_def)
  note t = absent_body_empty_buffer[OF h1 h2 h3 h4 h5 h6, of silent_transport]
  have m: "merge_headers (own_headers empty_options) [(''content-length'', HStr ''0'')] =
       [(''content-length'', HStr ''0'')]"
    by (simp add: own_headers_def empty_options_def caseless_set_def)
  from t have a: "handleBody empty_options = Inr (BufferBody [] [])" by blast
  from t have "sent_headers (request silent_transport (JStr ''post'') (JStr ''http://x/'')
     (ArgObject empty_options)) =
       [Some (merge_headers (own_headers empty_options) [(''content-length'', HStr ''0'')])]"
    by blast
  then have s: "sent_headers (request silent_transport (JStr ''post'') (JStr ''http://x/'')
     (ArgObject empty_options)) = [Some [(''content-length'', HStr ''0'')]]"
    using m by simp
  show ?thesis using h1 h2 h3 h4 h5 h6 a s by blast
qed

text \<open>
  Claim C5. For options with \<open>json\<close> set to \<open>{a:1}\<close> (and no form), the selected body is a
  Buffer variant whose bytes are the UTF-8 encoding of the JSON serialisation
  \<open>{"a":1}\<close>, and the resolved headers include content-type: application/json unless
  the caller's headers already contain a content-type key (case-insensitively).

  The headers that reach the transport are the merge of the two body headers into the
  caller's: content-type is application/json when the caller has no such key, and
  every key that spells content-type is as the caller set it otherwise.
\<close>

theorem json_body_example:
  assumes "typeof method = ''string''" and "typeof url = ''string''"
    and "duplex (toUpperCase (str_of method))"
    and "form opts = None" and "json opts = JObj [(''a'', JNum 1)]"
  shows "handleBody opts =
           Inr (BufferBody ''{\"a\":1}'' [(''content-type'', HStr ''application/json'')]) \<and>
         getHeaders (BufferBody ''{\"a\":1}'' [(''content-type'', HStr ''application/json'')]) =
           Fulfilled [(''content-length'', HStr ''7''),
                      (''content-type'', HStr ''application/json'')] \<and>
         sent_headers (request e method url (ArgObject opts)) =
           [Some (merge_headers (own_headers opts)
                    [(''content-length'', HStr ''7''),
                     (''content-type'', HStr ''application/json'')])] \<and>
         (caseless_has (own_headers opts) ''content-type'' = None \<longrightarrow>
            map_of (merge_headers (own_headers opts)
                      [(''content-length'', HStr ''7''),
                       (''content-type'', HStr ''application/json'')]) ''content-type'' =
              Some (HStr ''application/json'')) \<and>
         (caseless_has (own_headers opts) ''content-type'' \<noteq> None \<longrightarrow>
            (\<forall>k. toLowerCase k = toLowerCase ''content-type'' \<longrightarrow>
               map_of (merge_headers (own_headers opts)
                         [(''content-length'', HStr ''7''),
                          (''content-type'', HStr ''application/json'')]) k =
                 map_of (own_headers opts) k))"
proof -
  let ?B = "[(''content-length'', HStr ''7''), (''content-type'', HStr ''application/json'')]"
  have b: "handleBody opts =
           Inr (BufferBody ''{\"a\":1}'' [(''content-type'', HStr ''application/json'')])"
    using assms(4,5) by (simp add: handleBody_def stringify_example Buffer_from_def)
  have h: "getHeaders (BufferBody ''{\"a\":1}'' [(''content-type'', HStr ''application/json'')]) =
           Fulfilled ?B"
    by (simp add: BufferBody_getHeaders_def string_of_nat_7_Suc)
  have s: "sent_headers (request e method url (ArgObject opts)) =
           [Some (merge_headers (own_headers opts) ?B)]"
    by (rule duplex_sent_headers[OF assms(1,2,3) b h])
  have ne: "toLowerCase ''content-length'' \<noteq> toLowerCase ''content-type''"
    by (simp add: lower_content_length lower_content_type)
  have m: "caseless_has (own_headers opts) ''content-type'' = None \<Longrightarrow>
            map_of (merge_headers (own_headers opts) ?B) ''content-type'' =
              Some (HStr ''application/json'')"
    by (rule merge_adds_absent) (use ne in simp_all)
  have k: "caseless_has (own_headers opts) ''content-type'' \<noteq> None \<Longrightarrow>
            (\<forall>k. toLowerCase k = toLowerCase ''content-type'' \<longrightarrow>
               map_of (merge_headers (own_headers opts) ?B) k = map_of (own_headers opts) k)"
    using merge_keeps_present[of "own_headers opts" "''content-type''" _ ?B] by blast
  show ?thesis using b h s m k by blast
qed

theorem json_body_example_witness:
  "typeof (JStr ''POST'') = ''string'' \<and> typeof (JStr ''http://x/'') = ''string'' \<and>
   duplex (toUpperCase (str_of (JStr ''POST''))) \<and>
   form (empty_options\<lparr>json := JObj [(''a'', JNum 1)]\<rparr>) = None \<and>
   json (empty_options\<lparr>json := JObj [(''a'', JNum 1)]\<rparr>) = JObj [(''a'', JNum 1)] \<and>
   caseless_has (own_headers (empty_options\<lparr>json := JObj [(''a'', JNum 1)]\<rparr>)) ''content-type'' = None \<and>
   handleBody (empty_options\<lparr>json := JObj [(''a'', JNum 1)]\<rparr>) =
     Inr (BufferBody ''{\"a\":1}'' [(''content-type'', HStr ''application/json'')]) \<and>
   sent_headers (request silent_transport (JStr ''POST'') (JStr ''http://x/'')
     (ArgObject (empty_options\<lparr>json := JObj [(''a'', JNum 1)]\<rparr>))) =
     [Some [(''content-length'', HStr ''7''), (''content-type'', HStr ''application/json'')]]"
proof -
  let ?opts = "empty_options\<lparr>json := JObj [(''a'', JNum 1)]\<rparr>"
  let ?B = "[(''content-length'', HStr ''7''), (''content-type'', HStr ''application/json'')]"
  have h1: "typeof (JStr ''POST'') = ''string''" by simp
  have h2: "typeof (JStr ''http://x/'') = ''string''" by simp
  have h3: "duplex (toUpperCase (str_of (JStr ''POST'')))"
    by (simp add: duplex_def upper_POST)
  have h4: "form ?opts = None" by (simp add: empty_options_def)
  have h5: "json ?opts = JObj [(''a'', JNum 1)]" by simp
  have own: "own_headers ?opts = []" by (simp add: own_headers_def empty_options_def)
  have h6: "caseless_has (own_headers ?opts) ''content-type'' = None" by (simp add: own)
  note t = json_body_example[OF h1 h2 h3 h4 h5, of silent_transport]
  have m: "merge_headers (own_headers ?opts) ?B = ?B"
    by (simp add: own caseless_set_def lower_content_length lower_content_type)
  from t have a: "handleBody ?opts =
     Inr (BufferBody ''{\"a\":1}'' [(''content-type'', HStr ''application/json'')])" by blast
  from t have "sent_headers (request silent_transport (JStr ''POST'') (JStr ''http://x/'')
     (ArgObject ?opts)) = [Some (merge_headers (own_headers ?opts) ?B)]" by blast
  then have s: "sent_headers (request silent_transport (JStr ''POST'') (JStr ''http://x/'')
     (ArgObject ?opts)) = [Some ?B]" using m by simp
  show ?thesis using h1 h2 h3 h4 h5 h6 a s by blast
qed

text \<open>
  Claim C6. For every readable-stream body (a non-buffer value exposing a \<open>pipe\<close>
  function), the Stream variant's \<open>getHeaders\<close> resolves immediately with an empty header
  map, so no content-length header is ever derived from the body, regardless of the
  stream's size.

  The body selector reaches the Stream variant when neither \<open>form\<close> nor \<open>json\<close> takes
  precedence, and the transport then receives the caller's headers as they are.
\<close>

theorem stream_body_no_headers:
  assumes "typeof method = ''string''" and "typeof url = ''string''"
    and "duplex (toUpperCase (str_of method))"
    and "form opts = None" and "\<not> truthy (json opts)"
    and "body opts = JObj ps" and "map_of ps ''pipe'' = Some (JFun f)"
  shows "handleBody opts = Inr (StreamBody (JObj ps)) \<and>
         getHeaders (StreamBody (JObj ps)) = Fulfilled [] \<and>
         sent_headers (request e method url (ArgObject opts)) = [Some (own_headers opts)]"
proof -
  have b: "handleBody opts = Inr (StreamBody (JObj ps))"
    using assms(4,5,6,7) by (simp add: handleBody_def)
  have h: "getHeaders (StreamBody (JObj ps)) = Fulfilled []"
    by (simp add: StreamBody_getHeaders_def)
  have "sent_headers (request e method url (ArgObject opts)) =
          [Some (merge_headers (own_headers opts) [])]"
    by (rule duplex_sent_headers[OF assms(1,2,3) b h])
  then show ?thesis using b h by simp
qed

theorem stream_body_no_headers_witness:
  "typeof (JStr ''PUT'') = ''string'' \<and> typeof (JStr ''http://x/'') = ''string'' \<and>
   duplex (toUpperCase (str_of (JStr ''PUT''))) \<and>
   form (empty_options\<lparr>body := JObj [(''pipe'', JFun 0)]\<rparr>) = None \<and>
   \<not> truthy (json (empty_options\<lparr>body := JObj [(''pipe'', JFun 0)]\<rparr>)) \<and>
   body (empty_options\<lparr>body := JObj [(''pipe'', JFun 0)]\<rparr>) = JObj [(''pipe'', JFun 0)] \<and>
   map_of [(''pipe'', JFun 0)] ''pipe'' = Some (JFun 0) \<and>
   handleBody (empty_options\<lparr>body := JObj [(''pipe'', JFun 0)]\<rparr>) =
     Inr (StreamBody (JObj [(''pipe'', JFun 0)])) \<and>
   sent_headers (request silent_transport (JStr ''PUT'') (JStr ''http://x/'')
     (ArgObject (empty_options\<lparr>body := JObj [(''pipe'', JFun 0)]\<rparr>))) = [Some []]"
proof -
  let ?opts = "empty_options\<lparr>body := JObj [(''pipe'', JFun 0)]\<rparr>"
  have h1: "typeof (JStr ''PUT'') = ''string''" by simp
  have h2: "typeof (JStr ''http://x/'') = ''string''" by simp
  have h3: "duplex (toUpperCase (str_of (JStr ''PUT'')))"
    by (simp add: duplex_def toUpperCase_def upper_char_def lower_letters_def upper_letters_def)
  have h4: "form ?opts = None" by (simp add: empty_options_def)
  have h5: "\<not> truthy (json ?opts)" by (simp add: empty_options_def)
  have h6: "body ?opts = JObj [(''pipe'', JFun 0)]" by simp
  have h7: "map_of [(''pipe'', JFun 0)] ''pipe'' = Some (JFun 0)" by simp
  have own: "own_headers ?opts = []" by (simp add: own_headers_def empty_options_def)
  note t = stream_body_no_headers[OF h1 h2 h3 h4 h5 h6 h7, of silent_transport]
  from t have a: "handleBody ?opts = Inr (StreamBody (JObj [(''pipe'', JFun 0)]))" by blast
  from t have "sent_headers (request silent_transport (JStr ''PUT'') (JStr ''http://x/'')
     (ArgObject ?opts)) = [Some (own_headers ?opts)]" by blast
  then have s: "sent_headers (request silent_transport (JStr ''PUT'') (JStr ''http://x/'')
     (ArgObject ?opts)) = [Some []]" using own by simp
  show ?thesis using h1 h2 h3 h4 h5 h6 h7 a s by blast
qed

text \<open>
  Claim C7. For every non-string method, non-string url, or non-object non-null options
  argument, and for every unrecognized body shape (not buffer, not string, not
  stream-like), \<open>request\<close> returns a rejected future carrying the corresponding type
  error; the error is never thrown synchronously past the public entry point.

  As amended: the three argument tests reject with their type errors, and no exception
  ever leaves \<open>request\<close>; the body type error "body should be a Buffer or a String" is
  raised, and surfaces as a rejection before any transport invocation, for a duplex
  verb without \<open>form\<close>, with a falsy \<open>json\<close>, and with a body that is truthy, not a
  string, not a Buffer and without a \<open>pipe\<close> function.
\<close>

theorem usage_errors_reject:
  "(typeof method \<noteq> ''string'' \<longrightarrow>
      promise (request e method url arg) =
        Rejected (JErr TypeError ''The method must be a string.'') \<and>
      trace (request e method url arg) = []) \<and>
   (typeof method = ''string'' \<longrightarrow> typeof url \<noteq> ''string'' \<longrightarrow>
      promise (request e method url arg) =
        Rejected (JErr TypeError ''The URL/path must be a string.'') \<and>
      trace (request e method url arg) = []) \<and>
   (typeof method = ''string'' \<longrightarrow> typeof url = ''string'' \<longrightarrow>
    \<not> arg_nullish arg \<longrightarrow> arg_typeof arg \<noteq> ''object'' \<longrightarrow>
      promise (request e method url arg) =
        Rejected (JErr TypeError ''Options must be an object (or null).'') \<and>
      trace (request e method url arg) = []) \<and>
   (typeof method = ''string'' \<longrightarrow> typeof url = ''string'' \<longrightarrow>
    duplex (toUpperCase (str_of method)) \<longrightarrow> arg = ArgObject opts \<longrightarrow>
    form opts = None \<longrightarrow> \<not> truthy (json opts) \<longrightarrow> truthy (body opts) \<longrightarrow>
    typeof (body opts) \<noteq> ''string'' \<longrightarrow> \<not> isBuffer (body opts) \<longrightarrow>
    typeof (get_prop (body opts) ''pipe'') \<noteq> ''function'' \<longrightarrow>
      promise (request e method url arg) =
        Rejected (JErr TypeError ''body should be a Buffer or a String'') \<and>
      trace (request e method url arg) = []) \<and>
   thrown (request e method url arg) = None"
proof (intro conjI impI)
  assume "typeof method \<noteq> ''string''"
  then show "promise (request e method url arg) =
        Rejected (JErr TypeError ''The method must be a string.'')"
    and "trace (request e method url arg) = []"
    by (simp_all add: request_bad_method)
next
  assume "typeof method = ''string''" "typeof url \<noteq> ''string''"
  then show "promise (request e method url arg) =
        Rejected (JErr TypeError ''The URL/path must be a string.'')"
    and "trace (request e method url arg) = []"
    by (simp_all add: request_bad_url)
next
  assume "typeof method = ''string''" "typeof url = ''string''"
    "\<not> arg_nullish arg" "arg_typeof arg \<noteq> ''object''"
  then show "promise (request e method url arg) =
        Rejected (JErr TypeError ''Options must be an object (or null).'')"
    and "trace (request e method url arg) = []"
    by (simp_all add: request_bad_options)
next
  assume a: "typeof method = ''string''" "typeof url = ''string''"
    "duplex (toUpperCase (str_of method))" "arg = ArgObject opts"
    "form opts = None" "\<not> truthy (json opts)" "truthy (body opts)"
    "typeof (body opts) \<noteq> ''string''" "\<not> isBuffer (body opts)"
    "typeof (get_prop (body opts) ''pipe'') \<noteq> ''function''"
  have v: "valid_args method url arg" using a(1,2,4) by (simp add: valid_args_def)
  have h: "handleBody (arg_object arg) = Inl (JErr TypeError ''body should be a Buffer or a String'')"
    using a by (simp add: handleBody_unrecognized)
  show "promise (request e method url arg) =
        Rejected (JErr TypeError ''body should be a Buffer or a String'')"
    and "trace (request e method url arg) = []"
    by (simp_all add: request_body_throws[OF v a(3) h])
next
  show "thrown (request e method url arg) = None" by (rule request_never_throws)
qed

theorem usage_errors_reject_witness:
  "typeof (JNum 7) \<noteq> ''string'' \<and>
   promise (request silent_transport (JNum 7) (JStr ''http://x/'') (ArgOther JUndefined)) =
     Rejected (JErr TypeError ''The method must be a string.'') \<and>
   typeof (JStr ''GET'') = ''string'' \<and> typeof JNull \<noteq> ''string'' \<and>
   promise (request silent_transport (JStr ''GET'') JNull (ArgOther JUndefined)) =
     Rejected (JErr TypeError ''The URL/path must be a string.'') \<and>
   typeof (JStr ''http://x/'') = ''string'' \<and>
   \<not> arg_nullish (ArgOther (JBool True)) \<and> arg_typeof (ArgOther (JBool True)) \<noteq> ''object'' \<and>
   promise (request silent_transport (JStr ''GET'') (JStr ''http://x/'') (ArgOther (JBool True))) =
     Rejected (JErr TypeError ''Options must be an object (or null).'') \<and>
   typeof (JStr ''POST'') = ''string'' \<and> duplex (toUpperCase (str_of (JStr ''POST''))) \<and>
   form (empty_options\<lparr>body := JNum 5\<rparr>) = None \<and>
   \<not> truthy (json (empty_options\<lparr>body := JNum 5\<rparr>)) \<and>
   truthy (body (empty_options\<lparr>body := JNum 5\<rparr>)) \<and>
   typeof (body (empty_options\<lparr>body := JNum 5\<rparr>)) \<noteq> ''string'' \<and>
   \<not> isBuffer (body (empty_options\<lparr>body := JNum 5\<rparr>)) \<and>
   typeof (get_prop (body (empty_options\<lparr>body := JNum 5\<rparr>)) ''pipe'') \<noteq> ''function'' \<and>
   promise (request silent_transport (JStr ''POST'') (JStr ''http://x/'')
       (ArgObject (empty_options\<lparr>body := JNum 5\<rparr>))) =
     Rejected (JErr TypeError ''body should be a Buffer or a String'') \<and>
   trace (request silent_transport (JStr ''POST'') (JStr ''http://x/'')
       (ArgObject (empty_options\<lparr>body := JNum 5\<rparr>))) = [] \<and>
   thrown (request silent_transport (JStr ''POST'') (JStr ''http://x/'')
       (ArgObject (empty_options\<lparr>body := JNum 5\<rparr>))) = None"
proof -
  let ?opts = "empty_options\<lparr>body := JNum 5\<rparr>"
  have m1: "typeof (JNum 7) \<noteq> ''string''" by simp
  have u1: "typeof (JStr ''GET'') = ''string''" "typeof JNull \<noteq> ''string''" by simp_all
  have o1: "typeof (JStr ''http://x/'') = ''string''" "\<not> arg_nullish (ArgOther (JBool True))"
    "arg_typeof (ArgOther (JBool True)) \<noteq> ''object''" by simp_all
  have b1: "typeof (JStr ''POST'') = ''string''" "duplex (toUpperCase (str_of (JStr ''POST'')))"
    "form ?opts = None" "\<not> truthy (json ?opts)" "truthy (body ?opts)"
    "typeof (body ?opts) \<noteq> ''string''" "\<not> isBuffer (body ?opts)"
    "typeof (get_prop (body ?opts) ''pipe'') \<noteq> ''function''"
    by (simp_all add: duplex_def upper_POST empty_options_def)
  from usage_errors_reject[of "JNum 7" silent_transport "JStr ''http://x/''" "ArgOther JUndefined"] m1
  have r1: "promise (request silent_transport (JNum 7) (JStr ''http://x/'') (ArgOther JUndefined)) =
     Rejected (JErr TypeError ''The method must be a string.'')" by blast
  from usage_errors_reject[of "JStr ''GET''" silent_transport JNull "ArgOther JUndefined"] u1
  have r2: "promise (request silent_transport (JStr ''GET'') JNull (ArgOther JUndefined)) =
     Rejected (JErr TypeError ''The URL/path must be a string.'')" by blast
  from usage_errors_reject[of "JStr ''GET''" silent_transport "JStr ''http://x/''" "ArgOther (JBool True)"]
    u1(1) o1
  have r3: "promise (request silent_transport (JStr ''GET'') (JStr ''http://x/'') (ArgOther (JBool True))) =
     Rejected (JErr TypeError ''Options must be an object (or null).'')" by blast
  note t = usage_errors_reject[of "JStr ''POST''" silent_transport "JStr ''http://x/''"
      "ArgObject ?opts" ?opts]
  from t b1 o1(1)
  have r4: "promise (request silent_transport (JStr ''POST'') (JStr ''http://x/'') (ArgObject ?opts)) =
     Rejected (JErr TypeError ''body should be a Buffer or a String'')"
    and r5: "trace (request silent_transport (JStr ''POST'') (JStr ''http://x/'') (ArgObject ?opts)) = []"
    by blast+
  from t have r6: "thrown (request silent_transport (JStr ''POST'') (JStr ''http://x/'')
       (ArgObject ?opts)) = None" by blast
  show ?thesis using m1 u1 o1 b1 r1 r2 r3 r4 r5 r6 by blast
qed

text \<open>
  The claim as stated fails on a body that is falsy, and on a bodyless verb: \<open>false\<close> is
  not a Buffer, not a string and not stream-like, yet a POST with it is dispatched and
  not rejected; a GET with the body \<open>5\<close> is rejected, but with the error of the bodyless
  branch and not with a type error.
\<close>

theorem unrecognized_body_counterexample:
  "\<not> isBuffer (JBool False) \<and> typeof (JBool False) \<noteq> ''string'' \<and>
   typeof (get_prop (JBool False) ''pipe'') \<noteq> ''function'' \<and>
   promise (request silent_transport (JStr ''POST'') (JStr ''http://x/'')
       (ArgObject (empty_options\<lparr>body := JBool False\<rparr>))) = Pending \<and>
   transport_calls (trace (request silent_transport (JStr ''POST'') (JStr ''http://x/'')
       (ArgObject (empty_options\<lparr>body := JBool False\<rparr>)))) \<noteq> [] \<and>
   \<not> isBuffer (JNum 5) \<and> typeof (JNum 5) \<noteq> ''string'' \<and>
   typeof (get_prop (JNum 5) ''pipe'') \<noteq> ''function'' \<and>
   promise (request silent_transport (JStr ''GET'') (JStr ''http://x/'')
       (ArgObject (empty_options\<lparr>body := JNum 5\<rparr>))) =
     Rejected (JErr Error ''You cannot pass a body to a GET request.'')"
  by (simp add: run_defs upper_GET upper_POST)

text \<open>
  Claim C8. For every request with a body, the transport is invoked only after the
  body's header resolution has settled successfully, and the body is piped into the
  transport's request sink only after the transport invocation has returned that sink
  and only when the sink is non-null; on header-resolution failure the transport is
  never invoked.

  On the trace of a run: for a duplex verb every invocation of the transport is
  preceded by the successful resolution of the headers of the selected body; every
  piping of a body is preceded by an invocation of the transport that returned a sink;
  and when the resolution of the headers fails, the transport is not invoked and the
  future is rejected with that failure.
\<close>

theorem headers_before_transport_before_pipe:
  "(duplex (toUpperCase (str_of method)) \<longrightarrow>
    trace (request e method url arg) = pre @ TransportInvoked m u cfg # post \<longrightarrow>
      (\<exists>b B. handleBody (arg_object arg) = Inr b \<and> getHeaders b = Fulfilled B \<and>
         HeadersResolved B \<in> set pre)) \<and>
   (trace (request e method url arg) = pre' @ BodyPiped b' # post' \<longrightarrow>
      (\<exists>m' u' cfg' c. TransportInvoked m' u' cfg' \<in> set pre' \<and>
         basicRequest e m' u' cfg' = Returns True c)) \<and>
   (typeof method = ''string'' \<longrightarrow> typeof url = ''string'' \<longrightarrow>
    arg_nullish arg \<or> arg_typeof arg = ''object'' \<longrightarrow>
    duplex (toUpperCase (str_of method)) \<longrightarrow>
    handleBody (arg_object arg) = Inr b \<longrightarrow> getHeaders b = Rejected ex \<longrightarrow>
      transport_calls (trace (request e method url arg)) = [] \<and>
      promise (request e method url arg) = Rejected ex)"
proof (intro conjI impI)
  assume d: "duplex (toUpperCase (str_of method))"
    and t: "trace (request e method url arg) = pre @ TransportInvoked m u cfg # post"
  from request_cases[of e "method" url arg] d t
  obtain b B where b: "handleBody (arg_object arg) = Inr b" "getHeaders b = Fulfilled B"
    and tr: "pre @ TransportInvoked m u cfg # post =
        HeadersResolved B #
        fst (ready e (toUpperCase (str_of method)) (target e url arg) (merged arg B) (Some b))"
    by (auto simp: append_eq_Cons_conv)
  from tr have "HeadersResolved B \<in> set pre"
    by (cases pre) auto
  with b show "\<exists>b B. handleBody (arg_object arg) = Inr b \<and> getHeaders b = Fulfilled B \<and>
         HeadersResolved B \<in> set pre" by blast
next
  assume t: "trace (request e method url arg) = pre' @ BodyPiped b' # post'"
  let ?M = "toUpperCase (str_of method)" and ?U = "target e url arg"
  from request_cases[of e "method" url arg] t
  consider (dup) b B where
      "pre' @ BodyPiped b' # post' = HeadersResolved B # fst (ready e ?M ?U (merged arg B) (Some b))"
    | (nodup) "pre' @ BodyPiped b' # post' = fst (ready e ?M ?U (started arg) None)"
    by (auto simp: append_eq_Cons_conv)
  then show "\<exists>m' u' cfg' c. TransportInvoked m' u' cfg' \<in> set pre' \<and>
         basicRequest e m' u' cfg' = Returns True c"
  proof cases
    case dup
    from ready_trace_cases[of e ?M ?U "merged arg B" "Some b"] dup
    obtain c where c: "basicRequest e ?M ?U (config (merged arg B)) = Returns True c"
      and eq: "pre' @ BodyPiped b' # post' =
         [HeadersResolved B, TransportInvoked ?M ?U (config (merged arg B)), BodyPiped b]"
      by (auto simp: append_eq_Cons_conv Cons_eq_append_conv)
    from eq have "pre' = [HeadersResolved B, TransportInvoked ?M ?U (config (merged arg B))]"
      by (auto simp: append_eq_Cons_conv Cons_eq_append_conv)
    with c show ?thesis by auto
  next
    case nodup
    from ready_trace_cases[of e ?M ?U "started arg" None] nodup
    have False by (auto simp: append_eq_Cons_conv Cons_eq_append_conv)
    then show ?thesis ..
  qed
next
  assume a: "typeof method = ''string''" "typeof url = ''string''"
    "arg_nullish arg \<or> arg_typeof arg = ''object''"
    "duplex (toUpperCase (str_of method))"
    "handleBody (arg_object arg) = Inr b" "getHeaders b = Rejected ex"
  have v: "valid_args method url arg" using a(1,2,3) by (simp add: valid_args_def)
  show "transport_calls (trace (request e method url arg)) = []"
    and "promise (request e method url arg) = Rejected ex"
    by (simp_all add: request_headers_rejected[OF v a(4) a(5) a(6)])
qed

theorem headers_before_transport_before_pipe_witness:
  "duplex (toUpperCase (str_of (JStr ''POST''))) \<and>
   trace (request silent_transport (JStr ''POST'') (JStr ''http://x/'')
       (ArgObject (empty_options\<lparr>body := JStr ''hi''\<rparr>))) =
     [HeadersResolved [(''content-length'', HStr ''2'')]] @
     TransportInvoked ''POST'' ''http://x/''
       (config (empty_options\<lparr>body := JStr ''hi'',
                  headers := Some [(''content-length'', HStr ''2'')]\<rparr>)) #
     [BodyPiped (BufferBody ''hi'' [])] \<and>
   (\<exists>b B. handleBody (arg_object (ArgObject (empty_options\<lparr>body := JStr ''hi''\<rparr>))) = Inr b \<and>
      getHeaders b = Fulfilled B \<and>
      HeadersResolved B \<in> set [HeadersResolved [(''content-length'', HStr ''2'')]]) \<and>
   trace (request silent_transport (JStr ''POST'') (JStr ''http://x/'')
       (ArgObject (empty_options\<lparr>body := JStr ''hi''\<rparr>))) =
     [HeadersResolved [(''content-length'', HStr ''2'')],
      TransportInvoked ''POST'' ''http://x/''
       (config (empty_options\<lparr>body := JStr ''hi'',
                  headers := Some [(''content-length'', HStr ''2'')]\<rparr>))] @
     BodyPiped (BufferBody ''hi'' []) # [] \<and>
   (\<exists>m' u' cfg' c.
      TransportInvoked m' u' cfg' \<in>
        set [HeadersResolved [(''content-length'', HStr ''2'')],
             TransportInvoked ''POST'' ''http://x/''
               (config (empty_options\<lparr>body := JStr ''hi'',
                          headers := Some [(''content-length'', HStr ''2'')]\<rparr>))] \<and>
      basicRequest silent_transport m' u' cfg' = Returns True c) \<and>
   typeof (JStr ''POST'') = ''string'' \<and> typeof (JStr ''http://x/'') = ''string'' \<and>
   (arg_nullish (ArgObject (empty_options\<lparr>form := Some failing_form\<rparr>)) \<or>
    arg_typeof (ArgObject (empty_options\<lparr>form := Some failing_form\<rparr>)) = ''object'') \<and>
   handleBody (arg_object (ArgObject (empty_options\<lparr>form := Some failing_form\<rparr>))) =
     Inr (FormBody failing_form) \<and>
   getHeaders (FormBody failing_form) = Rejected (JErr Error ''Unknown stream'') \<and>
   transport_calls (trace (request silent_transport (JStr ''POST'') (JStr ''http://x/'')
       (ArgObject (empty_options\<lparr>form := Some failing_form\<rparr>)))) = [] \<and>
   promise (request silent_transport (JStr ''POST'') (JStr ''http://x/'')
       (ArgObject (empty_options\<lparr>form := Some failing_form\<rparr>))) =
     Rejected (JErr Error ''Unknown stream'')"
proof -
  let ?opts = "empty_options\<lparr>body := JStr ''hi''\<rparr>"
  let ?fopts = "empty_options\<lparr>form := Some failing_form\<rparr>"
  let ?B = "[(''content-length'', HStr ''2'')]"
  let ?cfg = "config (empty_options\<lparr>body := JStr ''hi'', headers := Some ?B\<rparr>)"
  let ?T = "TransportInvoked ''POST'' ''http://x/'' ?cfg"
  let ?P = "BodyPiped (BufferBody ''hi'' [])"
  have d: "duplex (toUpperCase (str_of (JStr ''POST'')))"
    by (simp add: duplex_def upper_POST)
  have two: "string_of_nat (Suc (Suc 0)) = ''2''"
    by (simp add: string_of_nat.simps[of "Suc (Suc 0)"] digit_char_def)
  have tr: "trace (request silent_transport (JStr ''POST'') (JStr ''http://x/'') (ArgObject ?opts)) =
      [HeadersResolved ?B, ?T, ?P]"
    by (simp add: run_defs upper_POST two)
  have t1: "trace (request silent_transport (JStr ''POST'') (JStr ''http://x/'') (ArgObject ?opts)) =
      [HeadersResolved ?B] @ ?T # [?P]"
    using tr by simp
  have t2: "trace (request silent_transport (JStr ''POST'') (JStr ''http://x/'') (ArgObject ?opts)) =
      [HeadersResolved ?B, ?T] @ ?P # []"
    using tr by simp
  have s: "typeof (JStr ''POST'') = ''string''" "typeof (JStr ''http://x/'') = ''string''"
    by simp_all
  have o: "arg_nullish (ArgObject ?fopts) \<or> arg_typeof (ArgObject ?fopts) = ''object''"
    by simp
  have hb: "handleBody (arg_object (ArgObject ?fopts)) = Inr (FormBody failing_form)"
    by (simp add: handleBody_def empty_options_def)
  have gh: "getHeaders (FormBody failing_form) = Rejected (JErr Error ''Unknown stream'')"
    by (simp add: FormBody_getHeaders_def FormBody_run_def failing_form_def length_callback_def)
  note a = headers_before_transport_before_pipe[of "JStr ''POST''" silent_transport
      "JStr ''http://x/''" "ArgObject ?opts" "[HeadersResolved ?B]" "''POST''" "''http://x/''"
      ?cfg "[?P]" "[HeadersResolved ?B, ?T]" "BufferBody ''hi'' []" "[]"]
  from a d t1 have c1: "\<exists>b B. handleBody (arg_object (ArgObject ?opts)) = Inr b \<and>
      getHeaders b = Fulfilled B \<and> HeadersResolved B \<in> set [HeadersResolved ?B]"
    by blast
  from a t2 have c2: "\<exists>m' u' cfg' c. TransportInvoked m' u' cfg' \<in> set [HeadersResolved ?B, ?T] \<and>
      basicRequest silent_transport m' u' cfg' = Returns True c"
    by blast
  note f = headers_before_transport_before_pipe[of "JStr ''POST''" silent_transport
      "JStr ''http://x/''" "ArgObject ?fopts" _ _ _ _ _ _ _ _ "FormBody failing_form"
      "JErr Error ''Unknown stream''"]
  from f d s o hb gh
  have c3: "transport_calls (trace (request silent_transport (JStr ''POST'') (JStr ''http://x/'')
       (ArgObject ?fopts))) = []"
    and c4: "promise (request silent_transport (JStr ''POST'') (JStr ''http://x/'')
       (ArgObject ?fopts)) = Rejected (JErr Error ''Unknown stream'')"
    by blast+
  show ?thesis using d t1 c1 t2 c2 s o hb gh c3 c4 by blast
qed

text \<open>
  Claim C9. For every invocation of \<open>request\<close>, the caller-supplied options object is
  not mutated: every field of options, including its headers mapping, is the same after
  the call as before.

  As amended: \<open>request\<close> changes no field of the caller's options object other than
  \<open>headers\<close>. When the method or the url is not a string the object is left as it was.
  When the verb is duplex, a body is selected and its headers resolve to \<open>B\<close>, the field
  holds the merge of exactly that \<open>B\<close> into the caller's header mapping (the empty
  mapping when there was none): an entry that differs from the caller's belongs to a
  name the caller did not have and carries the value of \<open>B\<close>, and a name of \<open>B\<close> that the
  caller did not have, spelled in one way in \<open>B\<close>, is present with the value of \<open>B\<close>. In
  every other case the field holds the caller's header mapping unchanged (the empty
  mapping when there was none). Every entry of the caller's mapping keeps its value.
\<close>

theorem only_headers_change:
  "(typeof method \<noteq> ''string'' \<or> typeof url \<noteq> ''string'' \<longrightarrow>
      options_after (request e method url (ArgObject opts)) = opts) \<and>
   (typeof method = ''string'' \<longrightarrow> typeof url = ''string'' \<longrightarrow>
    duplex (toUpperCase (str_of method)) \<longrightarrow>
    handleBody opts = Inr b \<longrightarrow> getHeaders b = Fulfilled B \<longrightarrow>
      options_after (request e method url (ArgObject opts)) =
        opts\<lparr>headers := Some (merge_headers (own_headers opts) B)\<rparr> \<and>
      (\<forall>k. map_of (merge_headers (own_headers opts) B) k \<noteq> map_of (own_headers opts) k \<longrightarrow>
           caseless_has (own_headers opts) k = None \<and>
           map_of (merge_headers (own_headers opts) B) k = map_of B k) \<and>
      (\<forall>k w. caseless_has (own_headers opts) k = None \<longrightarrow> map_of B k = Some w \<longrightarrow>
           (\<forall>k' \<in> fst ` set B. toLowerCase k' = toLowerCase k \<longrightarrow> k' = k) \<longrightarrow>
           map_of (merge_headers (own_headers opts) B) k = Some w)) \<and>
   (typeof method = ''string'' \<longrightarrow> typeof url = ''string'' \<longrightarrow>
    \<not> duplex (toUpperCase (str_of method)) \<or>
    handleBody opts = Inl ex \<or>
    (handleBody opts = Inr b' \<and> (getHeaders b' = Pending \<or> getHeaders b' = Rejected ex')) \<longrightarrow>
      options_after (request e method url (ArgObject opts)) =
        opts\<lparr>headers := Some (own_headers opts)\<rparr>) \<and>
   (headers opts = Some H \<longrightarrow> map_of H k0 = Some v \<longrightarrow>
      (\<exists>T. headers (options_after (request e method url (ArgObject opts))) = Some T \<and>
           map_of T k0 = Some v))"
proof (intro conjI impI)
  assume "typeof method \<noteq> ''string'' \<or> typeof url \<noteq> ''string''"
  then consider "typeof method \<noteq> ''string''"
    | "typeof method = ''string''" "typeof url \<noteq> ''string''" by blast
  then show "options_after (request e method url (ArgObject opts)) = opts"
    by cases (simp_all add: request_bad_method request_bad_url)
next
  assume a: "typeof method = ''string''" "typeof url = ''string''"
    "duplex (toUpperCase (str_of method))" "handleBody opts = Inr b" "getHeaders b = Fulfilled B"
  have v: "valid_args method url (ArgObject opts)" using a(1,2) by (simp add: valid_args_def)
  have h: "handleBody (arg_object (ArgObject opts)) = Inr b" using a(4) by simp
  show "options_after (request e method url (ArgObject opts)) =
        opts\<lparr>headers := Some (merge_headers (own_headers opts) B)\<rparr>"
    by (simp add: request_headers_fulfilled[OF v a(3) h a(5)] merged_def)
  show "\<forall>k. map_of (merge_headers (own_headers opts) B) k \<noteq> map_of (own_headers opts) k \<longrightarrow>
           caseless_has (own_headers opts) k = None \<and>
           map_of (merge_headers (own_headers opts) B) k = map_of B k"
    using merge_changes_only_absent[of "own_headers opts" B] by blast
  show "\<forall>k w. caseless_has (own_headers opts) k = None \<longrightarrow> map_of B k = Some w \<longrightarrow>
           (\<forall>k' \<in> fst ` set B. toLowerCase k' = toLowerCase k \<longrightarrow> k' = k) \<longrightarrow>
           map_of (merge_headers (own_headers opts) B) k = Some w"
    using merge_adds_absent[of "own_headers opts" _ B] by blast
next
  assume a: "typeof method = ''string''" "typeof url = ''string''"
    and c: "\<not> duplex (toUpperCase (str_of method)) \<or> handleBody opts = Inl ex \<or>
      (handleBody opts = Inr b' \<and> (getHeaders b' = Pending \<or> getHeaders b' = Rejected ex'))"
  have v: "valid_args method url (ArgObject opts)" using a by (simp add: valid_args_def)
  have st: "started (ArgObject opts) = opts\<lparr>headers := Some (own_headers opts)\<rparr>"
    by (simp add: started_def)
  show "options_after (request e method url (ArgObject opts)) =
        opts\<lparr>headers := Some (own_headers opts)\<rparr>"
  proof (cases "duplex (toUpperCase (str_of method))")
    case nd: False
    show ?thesis
    proof (cases "truthy (body (arg_object (ArgObject opts)))")
      case True
      show ?thesis by (simp add: request_bodyless_body[OF v nd True] st)
    next
      case False
      show ?thesis by (simp add: request_bodyless[OF v nd False] st)
    qed
  next
    case d: True
    with c consider (thr) "handleBody opts = Inl ex"
      | (pen) "handleBody opts = Inr b'" "getHeaders b' = Pending"
      | (rej) "handleBody opts = Inr b'" "getHeaders b' = Rejected ex'"
      by blast
    then show ?thesis
    proof cases
      case thr
      then have h: "handleBody (arg_object (ArgObject opts)) = Inl ex" by simp
      show ?thesis by (simp add: request_body_throws[OF v d h] st)
    next
      case pen
      then have h: "handleBody (arg_object (ArgObject opts)) = Inr b'" by simp
      show ?thesis by (simp add: request_headers_pending[OF v d h pen(2)] st)
    next
      case rej
      then have h: "handleBody (arg_object (ArgObject opts)) = Inr b'" by simp
      show ?thesis by (simp add: request_headers_rejected[OF v d h rej(2)] st)
    qed
  qed
next
  assume H: "headers opts = Some H" and kv: "map_of H k0 = Some v"
  have own: "own_headers opts = H" using H by (simp add: own_headers_def)
  from request_cases[of e "method" url "ArgObject opts"]
  consider (same) "options_after (request e method url (ArgObject opts)) = opts"
    | (start) "options_after (request e method url (ArgObject opts)) = started (ArgObject opts)"
    | (merge) B' where "options_after (request e method url (ArgObject opts)) = merged (ArgObject opts) B'"
    by auto
  then show "\<exists>T. headers (options_after (request e method url (ArgObject opts))) = Some T \<and>
           map_of T k0 = Some v"
  proof cases
    case same then show ?thesis using H kv by simp
  next
    case start then show ?thesis using own kv by (simp add: started_def)
  next
    case merge
    then show ?thesis using own merge_keeps_entries[OF kv, of B'] by (simp add: merged_def)
  qed
qed

theorem only_headers_change_witness:
  "typeof (JStr ''POST'') = ''string'' \<and> typeof (JStr ''http://x/'') = ''string'' \<and>
   duplex (toUpperCase (str_of (JStr ''POST''))) \<and>
   handleBody (empty_options\<lparr>body := JStr ''hi'', headers := Some [(''Accept'', HStr ''text/plain'')]\<rparr>) =
     Inr (BufferBody ''hi'' []) \<and>
   getHeaders (BufferBody ''hi'' []) = Fulfilled [(''content-length'', HStr ''2'')] \<and>
   headers (empty_options\<lparr>body := JStr ''hi'', headers := Some [(''Accept'', HStr ''text/plain'')]\<rparr>) =
     Some [(''Accept'', HStr ''text/plain'')] \<and>
   map_of [(''Accept'', HStr ''text/plain'')] ''Accept'' = Some (HStr ''text/plain'') \<and>
   options_after (request silent_transport (JStr ''POST'') (JStr ''http://x/'')
       (ArgObject (empty_options\<lparr>body := JStr ''hi'',
          headers := Some [(''Accept'', HStr ''text/plain'')]\<rparr>))) =
     empty_options\<lparr>body := JStr ''hi'',
       headers := Some [(''Accept'', HStr ''text/plain''), (''content-length'', HStr ''2'')]\<rparr> \<and>
   (\<exists>T. headers (options_after (request silent_transport (JStr ''POST'') (JStr ''http://x/'')
            (ArgObject (empty_options\<lparr>body := JStr ''hi'',
               headers := Some [(''Accept'', HStr ''text/plain'')]\<rparr>)))) = Some T \<and>
        map_of T ''Accept'' = Some (HStr ''text/plain'')) \<and>
   typeof (JStr ''GET'') = ''string'' \<and> \<not> duplex (toUpperCase (str_of (JStr ''GET''))) \<and>
   options_after (request silent_transport (JStr ''GET'') (JStr ''http://x/'')
       (ArgObject empty_options)) = empty_options\<lparr>headers := Some []\<rparr> \<and>
   typeof (JNum 7) \<noteq> ''string'' \<and>
   options_after (request silent_transport (JNum 7) (JStr ''http://x/'')
       (ArgObject empty_options)) = empty_options"
proof -
  let ?H = "[(''Accept'', HStr ''text/plain'')]"
  let ?B = "[(''content-length'', HStr ''2'')]"
  let ?opts = "empty_options\<lparr>body := JStr ''hi'', headers := Some ?H\<rparr>"
  have s: "typeof (JStr ''POST'') = ''string''" "typeof (JStr ''http://x/'') = ''string''"
    "typeof (JStr ''GET'') = ''string''" "typeof (JNum 7) \<noteq> ''string''"
    by simp_all
  have d: "duplex (toUpperCase (str_of (JStr ''POST'')))" by (simp add: duplex_def upper_POST)
  have nd: "\<not> duplex (toUpperCase (str_of (JStr ''GET'')))" by (simp add: duplex_def upper_GET)
  have hb: "handleBody ?opts = Inr (BufferBody ''hi'' [])"
    by (simp add: handleBody_def empty_options_def Buffer_from_def)
  have gh: "getHeaders (BufferBody ''hi'' []) = Fulfilled ?B"
    by (simp add: BufferBody_getHeaders_def string_of_nat.simps[of "Suc (Suc 0)"] digit_char_def)
  have h: "headers ?opts = Some ?H" by simp
  have m: "map_of ?H ''Accept'' = Some (HStr ''text/plain'')" by simp
  have own: "own_headers ?opts = ?H" by (simp add: own_headers_def)
  have mg: "merge_headers ?H ?B = [(''Accept'', HStr ''text/plain''), (''content-length'', HStr ''2'')]"
    by (simp add: caseless_set_def toLowerCase_def lower_char_def lower_letters_def upper_letters_def)
  note t = only_headers_change[of "JStr ''POST''" "JStr ''http://x/''" silent_transport ?opts
      "BufferBody ''hi'' []" ?B _ _ _ ?H "''Accept''" "HStr ''text/plain''"]
  from t s(1,2) d hb gh
  have "options_after (request silent_transport (JStr ''POST'') (JStr ''http://x/'') (ArgObject ?opts)) =
      ?opts\<lparr>headers := Some (merge_headers (own_headers ?opts) ?B)\<rparr>"
    by blast
  then have r1: "options_after (request silent_transport (JStr ''POST'') (JStr ''http://x/'') (ArgObject ?opts)) =
      empty_options\<lparr>body := JStr ''hi'',
        headers := Some [(''Accept'', HStr ''text/plain''), (''content-length'', HStr ''2'')]\<rparr>"
    by (simp add: own mg del: merge_headers.simps)
  from t h m
  have r2: "\<exists>T. headers (options_after (request silent_transport (JStr ''POST'') (JStr ''http://x/'')
            (ArgObject ?opts))) = Some T \<and> map_of T ''Accept'' = Some (HStr ''text/plain'')"
    by blast
  from only_headers_change[of "JStr ''GET''" "JStr ''http://x/''" silent_transport empty_options]
    s(2,3) nd
  have "options_after (request silent_transport (JStr ''GET'') (JStr ''http://x/'')
       (ArgObject empty_options)) = empty_options\<lparr>headers := Some (own_headers empty_options)\<rparr>"
    by blast
  then have r3: "options_after (request silent_transport (JStr ''GET'') (JStr ''http://x/'')
       (ArgObject empty_options)) = empty_options\<lparr>headers := Some []\<rparr>"
    by (simp add: own_headers_def empty_options_def)
  from only_headers_change[of "JNum 7" "JStr ''http://x/''" silent_transport empty_options] s(4)
  have r4: "options_after (request silent_transport (JNum 7) (JStr ''http://x/'')
       (ArgObject empty_options)) = empty_options"
    by blast
  show ?thesis using s d nd hb gh h m r1 r2 r3 r4 by blast
qed

text \<open>
  The claim as stated fails: a POST with the empty options object leaves that object
  with a \<open>headers\<close> field, holding the content-length derived from the empty body.
\<close>

theorem options_mutated_counterexample:
  "headers empty_options = None \<and>
   headers (options_after (request silent_transport (JStr ''POST'') (JStr ''http://x/'')
       (ArgObject empty_options))) = Some [(''content-length'', HStr ''0'')] \<and>
   options_after (request silent_transport (JStr ''POST'') (JStr ''http://x/'')
       (ArgObject empty_options)) \<noteq> empty_options"
proof -
  have a: "headers empty_options = None" by (simp add: empty_options_def)
  have b: "headers (options_after (request silent_transport (JStr ''POST'') (JStr ''http://x/'')
       (ArgObject empty_options))) = Some [(''content-length'', HStr ''0'')]"
    by (simp add: run_defs upper_POST)
  from a b have "options_after (request silent_transport (JStr ''POST'') (JStr ''http://x/'')
       (ArgObject empty_options)) \<noteq> empty_options" by auto
  with a b show ?thesis by blast
qed

text \<open>
  Claim C10. For every options in which \<open>json\<close> is a falsy value (such as 0, false or
  the empty string), the body selector treats \<open>json\<close> as absent: no JSON serialisation
  occurs and no content-type header is added, so the body falls through to the \<open>body\<close>
  field; likewise a falsy \<open>body\<close> value (such as 0 or false) is replaced by the
  zero-length byte sequence, yielding the empty Buffer variant.

  With a falsy \<open>json\<close> the selector answers what it answers without \<open>json\<close>; without a
  form a Buffer variant then has no extra header, a string or Buffer in \<open>body\<close> becomes
  the bytes of the variant, and a falsy \<open>body\<close> gives the empty Buffer variant.
\<close>

theorem falsy_json_is_absent:
  "\<not> truthy (json opts) \<Longrightarrow>
   handleBody opts = handleBody (opts\<lparr>json := JUndefined\<rparr>) \<and>
   (form opts = None \<longrightarrow>
      (\<forall>b hs. handleBody opts = Inr (BufferBody b hs) \<longrightarrow> hs = []) \<and>
      (\<forall>s. body opts = JStr s \<longrightarrow> handleBody opts = Inr (BufferBody s [])) \<and>
      (\<forall>b. body opts = JBuffer b \<longrightarrow> handleBody opts = Inr (BufferBody b [])) \<and>
      (\<not> truthy (body opts) \<longrightarrow> handleBody opts = Inr (BufferBody [] [])))"
  using handleBody_json_absent[of opts] handleBody_no_extra[of opts] handleBody_string[of opts]
    handleBody_buffer[of opts] handleBody_falsy[of opts]
  by blast

theorem falsy_json_is_absent_witness:
  "\<not> truthy (json (empty_options\<lparr>json := JNum 0, body := JBool False\<rparr>)) \<and>
   form (empty_options\<lparr>json := JNum 0, body := JBool False\<rparr>) = None \<and>
   \<not> truthy (body (empty_options\<lparr>json := JNum 0, body := JBool False\<rparr>)) \<and>
   handleBody (empty_options\<lparr>json := JNum 0, body := JBool False\<rparr>) = Inr (BufferBody [] []) \<and>
   \<not> truthy (json (empty_options\<lparr>json := JStr [], body := JStr ''hi''\<rparr>)) \<and>
   form (empty_options\<lparr>json := JStr [], body := JStr ''hi''\<rparr>) = None \<and>
   body (empty_options\<lparr>json := JStr [], body := JStr ''hi''\<rparr>) = JStr ''hi'' \<and>
   handleBody (empty_options\<lparr>json := JStr [], body := JStr ''hi''\<rparr>) = Inr (BufferBody ''hi'' [])"
proof -
  let ?o1 = "empty_options\<lparr>json := JNum 0, body := JBool False\<rparr>"
  let ?o2 = "empty_options\<lparr>json := JStr [], body := JStr ''hi''\<rparr>"
  have a: "\<not> truthy (json ?o1)" "form ?o1 = None" "\<not> truthy (body ?o1)"
    by (simp_all add: empty_options_def)
  have b: "\<not> truthy (json ?o2)" "form ?o2 = None" "body ?o2 = JStr ''hi''"
    by (simp_all add: empty_options_def)
  from falsy_json_is_absent[OF a(1)] a(2,3)
  have r1: "handleBody ?o1 = Inr (BufferBody [] [])" by blast
  from falsy_json_is_absent[OF b(1)] b(2,3)
  have r2: "handleBody ?o2 = Inr (BufferBody ''hi'' [])" by blast
  show ?thesis using a b r1 r2 by blast
qed

end
